theory Spec2Isabelle
  imports Main "HOL-Library.Word"
begin

unbundle bit_operations_syntax

section \<open>Data model of \<^verbatim>\<open>src/openrct2/drawing/TTF.cpp\<close>\<close>

text \<open>
  Pointers that are only compared or hashed (\<^verbatim>\<open>TTF_Font*\<close>, \<^verbatim>\<open>TTFSurface*\<close>) are
  their numeric value (\<^verbatim>\<open>uintptr_t\<close>), with \<^verbatim>\<open>nullptr\<close> the value 0. An owned
  \<^verbatim>\<open>utf8*\<close> string is \<open>None\<close> for \<^verbatim>\<open>nullptr\<close> and otherwise the bytes of its
  buffer; as in C the string it denotes ends before the first NUL byte (or at the end of
  the list, where the terminator sits).
\<close>

type_synonym pointer = "64 word"
type_synonym utf8 = "8 word"
type_synonym uint32_t = "32 word"
type_synonym int32_t = "32 word"

definition nullptr :: pointer where
  "nullptr = 0"

definition TTF_SURFACE_CACHE_SIZE :: nat where
  "TTF_SURFACE_CACHE_SIZE = 256"

definition TTF_GETWIDTH_CACHE_SIZE :: nat where
  "TTF_GETWIDTH_CACHE_SIZE = 1024"

text \<open>The bytes of a C string: everything before the first NUL.\<close>

fun c_str :: "utf8 list \<Rightarrow> utf8 list" where
  "c_str [] = []"
| "c_str (ch # rest) = (if ch = 0 then [] else ch # c_str rest)"

text \<open>\<^verbatim>\<open>strcmp(a, b) == 0\<close> and \<^verbatim>\<open>_strdup(a)\<close> on such buffers.\<close>

definition strcmp_eq :: "utf8 list \<Rightarrow> utf8 list \<Rightarrow> bool" where
  "strcmp_eq a b = (c_str a = c_str b)"

definition strdup :: "utf8 list \<Rightarrow> utf8 list" where
  "strdup a = c_str a"

section \<open>The key hash\<close>

text \<open>
  Modelled from the spec: \<^verbatim>\<open>ror32\<close> is declared outside this file; the spec calls it
  "rotate the accumulator right by 3 bits", a rotation of the 32-bit value to the right.
\<close>

definition ror32 :: "uint32_t \<Rightarrow> nat \<Rightarrow> uint32_t" where
  "ror32 x shift = word_rotr shift x"

text \<open>
  \<^verbatim>\<open>*ch * 13\<close>: the \<^verbatim>\<open>utf8\<close> character (a plain \<^verbatim>\<open>char\<close>) is promoted to
  \<^verbatim>\<open>int\<close>, multiplied, and converted to \<^verbatim>\<open>uint32_t\<close> by the XOR. Whether plain
  \<^verbatim>\<open>char\<close> is signed depends on the platform, so it is the parameter \<open>char_signed\<close>.
\<close>

definition char_value :: "bool \<Rightarrow> utf8 \<Rightarrow> uint32_t" where
  "char_value char_signed ch = (if char_signed then scast ch else ucast ch)"

text \<open>The seed, \<^verbatim>\<open>(uint32_t)((((uintptr_t)font * 23) ^ 0xAAAAAAAA) & 0xFFFFFFFF)\<close>.\<close>

definition hash_seed :: "pointer \<Rightarrow> uint32_t" where
  "hash_seed font = ucast (((font * 23) XOR 0xAAAAAAAA) AND 0xFFFFFFFF)"

text \<open>The loop \<^verbatim>\<open>for (ch = text; *ch != 0; ch++) hash = ror32(hash, 3) ^ (*ch * 13)\<close>.\<close>

fun hash_loop :: "bool \<Rightarrow> uint32_t \<Rightarrow> utf8 list \<Rightarrow> uint32_t" where
  "hash_loop char_signed hash [] = hash"
| "hash_loop char_signed hash (ch # rest) =
     (if ch = 0 then hash
      else hash_loop char_signed (ror32 hash 3 XOR (char_value char_signed ch * 13)) rest)"

definition ttf_surface_cache_hash :: "bool \<Rightarrow> pointer \<Rightarrow> utf8 list \<Rightarrow> uint32_t" where
  "ttf_surface_cache_hash char_signed font text =
     hash_loop char_signed (hash_seed font) text"

section \<open>Cache entries and the global state\<close>

text \<open>
  \<^verbatim>\<open>struct ttf_cache_entry\<close> and \<^verbatim>\<open>struct ttf_getwidth_cache_entry\<close>. The fields keep
  their names behind a prefix (\<open>text\<close> is a keyword here, and both structs share
  field names).
\<close>

record ttf_cache_entry =
  s_surface :: pointer
  s_font :: pointer
  s_text :: "utf8 list option"
  s_lastUseTick :: uint32_t

record ttf_getwidth_cache_entry =
  w_width :: uint32_t
  w_font :: pointer
  w_text :: "utf8 list option"
  w_lastUseTick :: uint32_t

text \<open>
  Calls that leave this file: releasing memory and the font engine. The state keeps them
  in the order they were made, so that "how often was the renderer called" and "what was
  released" are properties of the state.
\<close>

datatype ttf_call =
    Call_ttf_free_surface pointer
  | Call_free_text "utf8 list option"
  | Call_TTF_RenderUTF8_Shaded pointer "utf8 list"
  | Call_TTF_RenderUTF8_Solid pointer "utf8 list"
  | Call_TTF_SizeUTF8 pointer "utf8 list"
  | Call_TTF_SetFontHinting pointer int

text \<open>
  The globals of the file, the draw counter \<^verbatim>\<open>gCurrentDrawCount\<close> it reads (declared
  outside the file; a 32-bit unsigned value like the \<^verbatim>\<open>lastUseTick\<close> fields it is stored
  in), and the hinting flag the font engine keeps for each font (what
  \<^verbatim>\<open>TTF_SetFontHinting\<close> sets and \<^verbatim>\<open>TTF_GetFontHinting\<close> reads). The \<^verbatim>\<open>int32_t\<close>
  counters are 32-bit words read as two's complement (\<open>sint\<close>); \<open>+ 1\<close> and \<open>- 1\<close>
  on them wrap around, where the source has undefined behaviour.
\<close>

record ttf_state =
  ttfSurfaceCache :: "ttf_cache_entry list"
  ttfSurfaceCacheCount :: int32_t
  ttfSurfaceCacheHitCount :: int32_t
  ttfSurfaceCacheMissCount :: int32_t
  ttfGetWidthCache :: "ttf_getwidth_cache_entry list"
  ttfGetWidthCacheCount :: int32_t
  ttfGetWidthCacheHitCount :: int32_t
  ttfGetWidthCacheMissCount :: int32_t
  gCurrentDrawCount :: uint32_t
  fontHinting :: "pointer \<Rightarrow> int"
  calls :: "ttf_call list"

text \<open>
  What the file takes from its surroundings: the answer of
  \<^verbatim>\<open>LocalisationService_UseTrueTypeFont()\<close>, \<^verbatim>\<open>gConfigFonts.enable_hinting\<close>, the
  descriptors \<^verbatim>\<open>gCurrentTTFFontSet->size[0 .. FONT_SIZE_COUNT - 1]\<close>, whether plain
  \<^verbatim>\<open>char\<close> is signed, and the font engine. The engine's answers may depend on every call
  made so far; a render that fails returns \<open>nullptr\<close>.
\<close>

record TTFFontDescriptor =
  d_font :: pointer
  d_hinting_threshold :: int

record ttf_env =
  char_is_signed :: bool
  UseTrueTypeFont :: bool
  enable_hinting :: bool
  currentTTFFontSet :: "TTFFontDescriptor list"
  TTF_RenderUTF8_Shaded :: "ttf_call list \<Rightarrow> pointer \<Rightarrow> utf8 list \<Rightarrow> pointer"
  TTF_RenderUTF8_Solid :: "ttf_call list \<Rightarrow> pointer \<Rightarrow> utf8 list \<Rightarrow> pointer"
  TTF_SizeUTF8 :: "ttf_call list \<Rightarrow> pointer \<Rightarrow> utf8 list \<Rightarrow> uint32_t"

text \<open>How often the renderer has been called.\<close>

fun is_render_call :: "ttf_call \<Rightarrow> bool" where
  "is_render_call (Call_TTF_RenderUTF8_Shaded font text) = True"
| "is_render_call (Call_TTF_RenderUTF8_Solid font text) = True"
| "is_render_call other = False"

definition render_calls :: "ttf_state \<Rightarrow> nat" where
  "render_calls s = length (filter is_render_call (calls s))"

section \<open>The surface cache\<close>

text \<open>\<^verbatim>\<open>ttf_surface_cache_dispose(&_ttfSurfaceCache[i])\<close>.\<close>

definition ttf_surface_cache_dispose :: "nat \<Rightarrow> ttf_state \<Rightarrow> ttf_state" where
  "ttf_surface_cache_dispose i s =
     (let entry = ttfSurfaceCache s ! i in
      if s_surface entry \<noteq> nullptr then
        s\<lparr>calls := calls s @ [Call_ttf_free_surface (s_surface entry), Call_free_text (s_text entry)],
          ttfSurfaceCache := (ttfSurfaceCache s)
            [i := entry\<lparr>s_surface := nullptr, s_font := nullptr, s_text := None\<rparr>]\<rparr>
      else s)"

text \<open>
  \<^verbatim>\<open>ttf_surface_cache_dispose_all\<close>: the body of its loop (dispose slot \<open>i\<close>, then
  \<^verbatim>\<open>_ttfSurfaceCacheCount--\<close>), run for \<open>i = 0, \<dots>, TTF_SURFACE_CACHE_SIZE - 1\<close>.
\<close>

definition surface_dispose_all_body :: "nat \<Rightarrow> ttf_state \<Rightarrow> ttf_state" where
  "surface_dispose_all_body i s =
     (let s1 = ttf_surface_cache_dispose i s
      in s1\<lparr>ttfSurfaceCacheCount := ttfSurfaceCacheCount s1 - 1\<rparr>)"

definition ttf_surface_cache_dispose_all :: "ttf_state \<Rightarrow> ttf_state" where
  "ttf_surface_cache_dispose_all s =
     fold surface_dispose_all_body [0..<TTF_SURFACE_CACHE_SIZE] s"

subsection \<open>\<^verbatim>\<open>ttf_toggle_hinting\<close>\<close>

text \<open>The body of its loop over the font descriptors, then the function.\<close>

definition set_font_hinting :: "ttf_env \<Rightarrow> TTFFontDescriptor \<Rightarrow> ttf_state \<Rightarrow> ttf_state" where
  "set_font_hinting env fontDesc s =
     (let use_hinting = (enable_hinting env \<and> d_hinting_threshold fontDesc \<noteq> 0);
          flag = (if use_hinting then 1 else 0)
      in s\<lparr>fontHinting := (fontHinting s)(d_font fontDesc := flag),
           calls := calls s @ [Call_TTF_SetFontHinting (d_font fontDesc) flag]\<rparr>)"

definition ttf_toggle_hinting :: "ttf_env \<Rightarrow> ttf_state \<Rightarrow> ttf_state" where
  "ttf_toggle_hinting env s =
     (if \<not> UseTrueTypeFont env then s
      else let s1 = fold (set_font_hinting env) (currentTTFFontSet env) s in
        if ttfSurfaceCacheCount s1 \<noteq> 0 then ttf_surface_cache_dispose_all s1 else s1)"

text \<open>\<^verbatim>\<open>ttf_render\<close>: shaded when the font's hinting flag is set, solid otherwise.\<close>

definition ttf_render :: "ttf_env \<Rightarrow> pointer \<Rightarrow> utf8 list \<Rightarrow> ttf_state \<Rightarrow> pointer \<times> ttf_state" where
  "ttf_render env font text s =
     (if fontHinting s font \<noteq> 0 then
        (TTF_RenderUTF8_Shaded env (calls s) font text,
         s\<lparr>calls := calls s @ [Call_TTF_RenderUTF8_Shaded font text]\<rparr>)
      else
        (TTF_RenderUTF8_Solid env (calls s) font text,
         s\<lparr>calls := calls s @ [Call_TTF_RenderUTF8_Solid font text]\<rparr>))"

text \<open>
  The probe loop of \<^verbatim>\<open>ttf_surface_cache_get_or_add\<close>, with its loop counter \<open>i\<close> and
  its \<open>index\<close>. It ends in \<open>Hit index\<close> where the source returns from inside the
  loop, and in \<open>Miss index\<close> where it leaves the loop (by \<^verbatim>\<open>break\<close> or because
  \<open>i\<close> reached the table size) with that \<open>index\<close>. An occupied entry has a text; the
  source would hand a null text to \<^verbatim>\<open>strcmp\<close>, here such an entry matches nothing.
\<close>

datatype probe_result = Hit nat | Miss nat

definition s_matches :: "ttf_cache_entry \<Rightarrow> pointer \<Rightarrow> utf8 list \<Rightarrow> bool" where
  "s_matches entry font text =
     (s_font entry = font \<and> (case s_text entry of None \<Rightarrow> False | Some t \<Rightarrow> strcmp_eq t text))"

function ttf_surface_cache_probe ::
  "ttf_cache_entry list \<Rightarrow> uint32_t \<Rightarrow> pointer \<Rightarrow> utf8 list \<Rightarrow> nat \<Rightarrow> nat \<Rightarrow> probe_result" where
  "ttf_surface_cache_probe cache tick font text i index =
     (if i < TTF_SURFACE_CACHE_SIZE then
        let entry = cache ! index in
        if s_surface entry = nullptr then Miss index
        else if s_matches entry font text then Hit index
        else if s_lastUseTick entry < tick - 64 then Miss index
        else ttf_surface_cache_probe cache tick font text (i + 1)
               (if index + 1 \<ge> TTF_SURFACE_CACHE_SIZE then 0 else index + 1)
      else Miss index)"
  by pat_completeness auto
termination
  by (relation "measure (\<lambda>(cache, tick, font, text, i, index). TTF_SURFACE_CACHE_SIZE - i)") auto

declare ttf_surface_cache_probe.simps [simp del]

text \<open>
  \<^verbatim>\<open>ttf_surface_cache_get_or_add\<close>, in the order of the source: the hash and the home
  index \<^verbatim>\<open>hash % TTF_SURFACE_CACHE_SIZE\<close>, the probe loop from there, and then either
  the return from inside the loop (a hit) or the code after the loop (a miss). The result
  is the returned pointer and the new state.
\<close>

definition surface_home_index :: "ttf_env \<Rightarrow> pointer \<Rightarrow> utf8 list \<Rightarrow> nat" where
  "surface_home_index env font text =
     unat (ttf_surface_cache_hash (char_is_signed env) font text) mod TTF_SURFACE_CACHE_SIZE"

definition ttf_surface_cache_lookup :: "ttf_env \<Rightarrow> pointer \<Rightarrow> utf8 list \<Rightarrow> ttf_state \<Rightarrow> probe_result" where
  "ttf_surface_cache_lookup env font text s =
     ttf_surface_cache_probe (ttfSurfaceCache s) (gCurrentDrawCount s) font text 0
       (surface_home_index env font text)"

definition ttf_surface_cache_get_or_add ::
  "ttf_env \<Rightarrow> pointer \<Rightarrow> utf8 list \<Rightarrow> ttf_state \<Rightarrow> pointer \<times> ttf_state" where
  "ttf_surface_cache_get_or_add env font text s =
     (case ttf_surface_cache_lookup env font text s of
        Hit index \<Rightarrow>
          (s_surface (ttfSurfaceCache s ! index),
           s\<lparr>ttfSurfaceCacheHitCount := ttfSurfaceCacheHitCount s + 1,
             ttfSurfaceCache := (ttfSurfaceCache s)
               [index := (ttfSurfaceCache s ! index)\<lparr>s_lastUseTick := gCurrentDrawCount s\<rparr>]\<rparr>)
      | Miss index \<Rightarrow>
          (let s1 = ttf_surface_cache_dispose index s;
               (surface, s2) = ttf_render env font text s1
           in if surface = nullptr then (nullptr, s2)
              else (surface,
                s2\<lparr>ttfSurfaceCacheMissCount := ttfSurfaceCacheMissCount s2 + 1,
                   ttfSurfaceCacheCount := ttfSurfaceCacheCount s2 + 1,
                   ttfSurfaceCache := (ttfSurfaceCache s2)
                     [index := \<lparr>s_surface = surface, s_font = font,
                                s_text = Some (strdup text),
                                s_lastUseTick = gCurrentDrawCount s2\<rparr>]\<rparr>)))"

section \<open>The width cache\<close>

text \<open>\<^verbatim>\<open>ttf_getwidth_cache_dispose(&_ttfGetWidthCache[i])\<close>.\<close>

definition ttf_getwidth_cache_dispose :: "nat \<Rightarrow> ttf_state \<Rightarrow> ttf_state" where
  "ttf_getwidth_cache_dispose i s =
     (let entry = ttfGetWidthCache s ! i in
      if w_text entry \<noteq> None then
        s\<lparr>calls := calls s @ [Call_free_text (w_text entry)],
          ttfGetWidthCache := (ttfGetWidthCache s)
            [i := entry\<lparr>w_width := 0, w_font := nullptr, w_text := None\<rparr>]\<rparr>
      else s)"

text \<open>\<^verbatim>\<open>ttf_getwidth_cache_dispose_all\<close>, the same loop over the width table.\<close>

definition getwidth_dispose_all_body :: "nat \<Rightarrow> ttf_state \<Rightarrow> ttf_state" where
  "getwidth_dispose_all_body i s =
     (let s1 = ttf_getwidth_cache_dispose i s
      in s1\<lparr>ttfGetWidthCacheCount := ttfGetWidthCacheCount s1 - 1\<rparr>)"

definition ttf_getwidth_cache_dispose_all :: "ttf_state \<Rightarrow> ttf_state" where
  "ttf_getwidth_cache_dispose_all s =
     fold getwidth_dispose_all_body [0..<TTF_GETWIDTH_CACHE_SIZE] s"

text \<open>
  \<^verbatim>\<open>ttf_get_size\<close>: the value of \<^verbatim>\<open>width\<close> after the call (what the engine wrote to
  \<^verbatim>\<open>*outWidth\<close>), as stored in the \<^verbatim>\<open>uint32_t\<close> field. The source ignores the
  returned flag.
\<close>

definition ttf_get_size :: "ttf_env \<Rightarrow> pointer \<Rightarrow> utf8 list \<Rightarrow> ttf_state \<Rightarrow> uint32_t \<times> ttf_state" where
  "ttf_get_size env font text s =
     (TTF_SizeUTF8 env (calls s) font text, s\<lparr>calls := calls s @ [Call_TTF_SizeUTF8 font text]\<rparr>)"

definition w_matches :: "ttf_getwidth_cache_entry \<Rightarrow> pointer \<Rightarrow> utf8 list \<Rightarrow> bool" where
  "w_matches entry font text =
     (w_font entry = font \<and> (case w_text entry of None \<Rightarrow> False | Some t \<Rightarrow> strcmp_eq t text))"

function ttf_getwidth_cache_probe ::
  "ttf_getwidth_cache_entry list \<Rightarrow> uint32_t \<Rightarrow> pointer \<Rightarrow> utf8 list \<Rightarrow> nat \<Rightarrow> nat \<Rightarrow> probe_result" where
  "ttf_getwidth_cache_probe cache tick font text i index =
     (if i < TTF_GETWIDTH_CACHE_SIZE then
        let entry = cache ! index in
        if w_text entry = None then Miss index
        else if w_matches entry font text then Hit index
        else if w_lastUseTick entry < tick - 64 then Miss index
        else ttf_getwidth_cache_probe cache tick font text (i + 1)
               (if index + 1 \<ge> TTF_GETWIDTH_CACHE_SIZE then 0 else index + 1)
      else Miss index)"
  by pat_completeness auto
termination
  by (relation "measure (\<lambda>(cache, tick, font, text, i, index). TTF_GETWIDTH_CACHE_SIZE - i)") auto

declare ttf_getwidth_cache_probe.simps [simp del]

text \<open>\<^verbatim>\<open>ttf_getwidth_cache_get_or_add\<close>, in the same order.\<close>

definition getwidth_home_index :: "ttf_env \<Rightarrow> pointer \<Rightarrow> utf8 list \<Rightarrow> nat" where
  "getwidth_home_index env font text =
     unat (ttf_surface_cache_hash (char_is_signed env) font text) mod TTF_GETWIDTH_CACHE_SIZE"

definition ttf_getwidth_cache_lookup :: "ttf_env \<Rightarrow> pointer \<Rightarrow> utf8 list \<Rightarrow> ttf_state \<Rightarrow> probe_result" where
  "ttf_getwidth_cache_lookup env font text s =
     ttf_getwidth_cache_probe (ttfGetWidthCache s) (gCurrentDrawCount s) font text 0
       (getwidth_home_index env font text)"

definition ttf_getwidth_cache_get_or_add ::
  "ttf_env \<Rightarrow> pointer \<Rightarrow> utf8 list \<Rightarrow> ttf_state \<Rightarrow> uint32_t \<times> ttf_state" where
  "ttf_getwidth_cache_get_or_add env font text s =
     (case ttf_getwidth_cache_lookup env font text s of
        Hit index \<Rightarrow>
          (w_width (ttfGetWidthCache s ! index),
           s\<lparr>ttfGetWidthCacheHitCount := ttfGetWidthCacheHitCount s + 1,
             ttfGetWidthCache := (ttfGetWidthCache s)
               [index := (ttfGetWidthCache s ! index)\<lparr>w_lastUseTick := gCurrentDrawCount s\<rparr>]\<rparr>)
      | Miss index \<Rightarrow>
          (let s1 = ttf_getwidth_cache_dispose index s;
               (width, s2) = ttf_get_size env font text s1
           in (width,
                s2\<lparr>ttfGetWidthCacheMissCount := ttfGetWidthCacheMissCount s2 + 1,
                   ttfGetWidthCacheCount := ttfGetWidthCacheCount s2 + 1,
                   ttfGetWidthCache := (ttfGetWidthCache s2)
                     [index := \<lparr>w_width = width, w_font = font,
                                w_text = Some (strdup text),
                                w_lastUseTick = gCurrentDrawCount s2\<rparr>]\<rparr>)))"

text \<open>The two tables have their declared sizes.\<close>

definition tables_sized :: "ttf_state \<Rightarrow> bool" where
  "tables_sized s =
     (length (ttfSurfaceCache s) = TTF_SURFACE_CACHE_SIZE
      \<and> length (ttfGetWidthCache s) = TTF_GETWIDTH_CACHE_SIZE)"

section \<open>One pass of a probe loop\<close>

text \<open>
  One pass of the body of either probe loop does one of four things with the slot at
  \<open>index\<close>: it leaves the loop because the slot is empty, it returns because the slot
  holds the key, it leaves the loop because the slot's \<^verbatim>\<open>lastUseTick\<close> is below
  \<^verbatim>\<open>gCurrentDrawCount - 64\<close> (the subtraction of the source, on \<^verbatim>\<open>uint32_t\<close>), or it
  goes on to the next index. The two loops have one shape, \<open>probe_loop\<close>, over what the
  pass does with a slot.
\<close>

datatype slot_rule = Rule_empty | Rule_hit | Rule_stale | Rule_continue

definition surface_slot_rule ::
  "ttf_cache_entry list \<Rightarrow> uint32_t \<Rightarrow> pointer \<Rightarrow> utf8 list \<Rightarrow> nat \<Rightarrow> slot_rule" where
  "surface_slot_rule cache tick font text slot =
     (if s_surface (cache ! slot) = nullptr then Rule_empty
      else if s_font (cache ! slot) = font
              \<and> map_option c_str (s_text (cache ! slot)) = Some (c_str text) then Rule_hit
      else if s_lastUseTick (cache ! slot) < tick - 64 then Rule_stale
      else Rule_continue)"

definition getwidth_slot_rule ::
  "ttf_getwidth_cache_entry list \<Rightarrow> uint32_t \<Rightarrow> pointer \<Rightarrow> utf8 list \<Rightarrow> nat \<Rightarrow> slot_rule" where
  "getwidth_slot_rule cache tick font text slot =
     (if w_text (cache ! slot) = None then Rule_empty
      else if w_font (cache ! slot) = font
              \<and> map_option c_str (w_text (cache ! slot)) = Some (c_str text) then Rule_hit
      else if w_lastUseTick (cache ! slot) < tick - 64 then Rule_stale
      else Rule_continue)"

function probe_loop :: "nat \<Rightarrow> (nat \<Rightarrow> slot_rule) \<Rightarrow> nat \<Rightarrow> nat \<Rightarrow> probe_result" where
  "probe_loop N rule i index =
     (if i < N then
        (case rule index of
           Rule_empty \<Rightarrow> Miss index
         | Rule_hit \<Rightarrow> Hit index
         | Rule_stale \<Rightarrow> Miss index
         | Rule_continue \<Rightarrow> probe_loop N rule (i + 1) (if index + 1 \<ge> N then 0 else index + 1))
      else Miss index)"
  by pat_completeness auto
termination
  by (relation "measure (\<lambda>(N, rule, i, index). N - i)") auto

declare probe_loop.simps [simp del]

section \<open>The probing contract, as the specification words it\<close>


definition spec_probe_sequence :: "nat \<Rightarrow> nat \<Rightarrow> nat list" where
  "spec_probe_sequence N home = map (\<lambda>k. (home + k) mod N) [0..<N]"

fun spec_probe :: "(nat \<Rightarrow> slot_rule) \<Rightarrow> nat list \<Rightarrow> probe_result option" where
  "spec_probe rule [] = None"
| "spec_probe rule (slot # rest) =
     (case rule slot of
        Rule_empty \<Rightarrow> Some (Miss slot)
      | Rule_hit \<Rightarrow> Some (Hit slot)
      | Rule_stale \<Rightarrow> Some (Miss slot)
      | Rule_continue \<Rightarrow> spec_probe rule rest)"





section \<open>Runs of operations\<close>

text \<open>
  The operations the rest of the program performs on the two tables, and the one thing it
  does to the state between them: the drawing subsystem advances the draw counter once per
  frame. A run applies a list of them in order.
\<close>

datatype ttf_op =
    GetOrAddSurface pointer "utf8 list"
  | GetOrAddWidth pointer "utf8 list"
  | DisposeAllSurfaces
  | DisposeAllWidths
  | NextFrame

fun run_op :: "ttf_env \<Rightarrow> ttf_op \<Rightarrow> ttf_state \<Rightarrow> ttf_state" where
  "run_op env (GetOrAddSurface font text) s = snd (ttf_surface_cache_get_or_add env font text s)"
| "run_op env (GetOrAddWidth font text) s = snd (ttf_getwidth_cache_get_or_add env font text s)"
| "run_op env DisposeAllSurfaces s = ttf_surface_cache_dispose_all s"
| "run_op env DisposeAllWidths s = ttf_getwidth_cache_dispose_all s"
| "run_op env NextFrame s = s\<lparr>gCurrentDrawCount := gCurrentDrawCount s + 1\<rparr>"

definition run_ops :: "ttf_env \<Rightarrow> ttf_op list \<Rightarrow> ttf_state \<Rightarrow> ttf_state" where
  "run_ops env ops s = fold (run_op env) ops s"













section \<open>Concrete inputs\<close>

text \<open>
  The state at program start (the tables are zero-initialised, the counters 0) at a given
  value of the draw counter, and two font engines: one whose renderer returns a new non-null
  pointer on every call, one whose renderer always fails.
\<close>

definition empty_surface_entry :: ttf_cache_entry where
  "empty_surface_entry = \<lparr>s_surface = nullptr, s_font = nullptr, s_text = None, s_lastUseTick = 0\<rparr>"

definition empty_getwidth_entry :: ttf_getwidth_cache_entry where
  "empty_getwidth_entry = \<lparr>w_width = 0, w_font = nullptr, w_text = None, w_lastUseTick = 0\<rparr>"

definition initial_state :: "uint32_t \<Rightarrow> ttf_state" where
  "initial_state tick =
     \<lparr>ttfSurfaceCache = replicate TTF_SURFACE_CACHE_SIZE empty_surface_entry,
      ttfSurfaceCacheCount = 0, ttfSurfaceCacheHitCount = 0, ttfSurfaceCacheMissCount = 0,
      ttfGetWidthCache = replicate TTF_GETWIDTH_CACHE_SIZE empty_getwidth_entry,
      ttfGetWidthCacheCount = 0, ttfGetWidthCacheHitCount = 0, ttfGetWidthCacheMissCount = 0,
      gCurrentDrawCount = tick, fontHinting = (\<lambda>font. 0), calls = []\<rparr>"

definition working_env :: ttf_env where
  "working_env =
     \<lparr>char_is_signed = True, UseTrueTypeFont = True, enable_hinting = True,
      currentTTFFontSet = [\<lparr>d_font = 0x1000, d_hinting_threshold = 0\<rparr>,
                           \<lparr>d_font = 0x2000, d_hinting_threshold = 60\<rparr>],
      TTF_RenderUTF8_Shaded = (\<lambda>cs font text. 0x5000 + 16 * of_nat (length cs)),
      TTF_RenderUTF8_Solid = (\<lambda>cs font text. 0x5000 + 16 * of_nat (length cs)),
      TTF_SizeUTF8 = (\<lambda>cs font text. 7 * of_nat (length (c_str text)))\<rparr>"

definition failing_env :: ttf_env where
  "failing_env =
     working_env\<lparr>TTF_RenderUTF8_Shaded := (\<lambda>cs font text. nullptr),
                  TTF_RenderUTF8_Solid := (\<lambda>cs font text. nullptr)\<rparr>"

text \<open>
  A font engine whose renderer fails unless the call before it was a render call as well:
  a render fails, the retry that follows at once works.
\<close>

definition flaky_env :: ttf_env where
  "flaky_env =
     working_env
       \<lparr>TTF_RenderUTF8_Shaded :=
          (\<lambda>cs font text. if cs \<noteq> [] \<and> is_render_call (last cs) then 0x6000 else nullptr),
        TTF_RenderUTF8_Solid :=
          (\<lambda>cs font text. if cs \<noteq> [] \<and> is_render_call (last cs) then 0x6000 else nullptr)\<rparr>"

definition sprite_env :: ttf_env where
  "sprite_env = working_env\<lparr>UseTrueTypeFont := False\<rparr>"

text \<open>The state after one surface lookup and one width lookup of the key (0x1000, "Hi").\<close>

definition cached_state :: ttf_state where
  "cached_state =
     snd (ttf_getwidth_cache_get_or_add working_env 0x1000 [72, 105]
       (snd (ttf_surface_cache_get_or_add working_env 0x1000 [72, 105] (initial_state 100))))"

text \<open>
  Both tables full of entries of the font 0x1000 with pairwise different two-letter texts,
  all last used at the current tick 100.
\<close>

definition full_fresh_state :: ttf_state where
  "full_fresh_state =
     (initial_state 100)
       \<lparr>ttfSurfaceCache :=
          map (\<lambda>j. \<lparr>s_surface = of_nat (0x5000 + 16 * j), s_font = 0x1000,
                     s_text = Some [of_nat (65 + j div 16), of_nat (65 + j mod 16)],
                     s_lastUseTick = 100\<rparr>) [0..<TTF_SURFACE_CACHE_SIZE],
        ttfSurfaceCacheCount := 256, ttfSurfaceCacheMissCount := 256,
        ttfGetWidthCache :=
          map (\<lambda>j. \<lparr>w_width = 14, w_font = 0x1000,
                     w_text = Some [of_nat (65 + j div 32), of_nat (65 + j mod 32)],
                     w_lastUseTick = 100\<rparr>) [0..<TTF_GETWIDTH_CACHE_SIZE],
        ttfGetWidthCacheCount := 1024, ttfGetWidthCacheMissCount := 1024\<rparr>"

text \<open>
  The key (0x1000, "") is looked up in both caches at tick \<^verbatim>\<open>0xFFFFFFF6\<close>; twenty frames
  later the 32-bit draw counter has wrapped around to 10.
\<close>

definition wrapped_state :: ttf_state where
  "wrapped_state =
     (snd (ttf_getwidth_cache_get_or_add working_env 0x1000 []
        (snd (ttf_surface_cache_get_or_add working_env 0x1000 [] (initial_state 0xFFFFFFF6)))))
       \<lparr>gCurrentDrawCount := 10\<rparr>"

text \<open>The same lookups at tick 5 of a run, seen at tick 10.\<close>

definition early_state :: ttf_state where
  "early_state =
     (snd (ttf_getwidth_cache_get_or_add working_env 0x1000 []
        (snd (ttf_surface_cache_get_or_add working_env 0x1000 [] (initial_state 5)))))
       \<lparr>gCurrentDrawCount := 10\<rparr>"

text \<open>An engine whose renderer always returns the same non-null pointer.\<close>

definition steady_env :: ttf_env where
  "steady_env =
     working_env\<lparr>TTF_RenderUTF8_Shaded := (\<lambda>cs font text. 0x5000),
                  TTF_RenderUTF8_Solid := (\<lambda>cs font text. 0x5000)\<rparr>"





text \<open>
  A run at tick 10 that ends with the surface counter at 0 and a live entry: one lookup, a
  disposal of the whole table (the counter drops to \<open>1 - 256\<close>), and 255 lookups that
  take turns between two keys with the same home slot, each of them a miss.
\<close>

definition turn_key :: "nat \<Rightarrow> ttf_op" where
  "turn_key i = GetOrAddSurface (if even i then 0x2000 else 0x1000) []"

definition zero_counter_run :: "ttf_op list" where
  "zero_counter_run =
     [GetOrAddSurface 0x1000 [], DisposeAllSurfaces] @ map turn_key [0..<255]"

text \<open>
  One turn at tick 10: slot 170 is empty or holds the other key (stale, as every entry is
  at a tick below 64), all other slots are empty; the lookup misses at slot 170 and the
  counter goes up by one.
\<close>

definition turn_state :: "nat \<Rightarrow> ttf_state \<Rightarrow> bool" where
  "turn_state n s =
     (gCurrentDrawCount s = 10 \<and> length (ttfSurfaceCache s) = 256
      \<and> ttfSurfaceCacheCount s = of_nat n - 255
      \<and> (\<forall>j<256. j \<noteq> 170 \<longrightarrow> s_surface (ttfSurfaceCache s ! j) = nullptr)
      \<and> (if n = 0 then s_surface (ttfSurfaceCache s ! 170) = nullptr
          else ttfSurfaceCache s ! 170 =
                 \<lparr>s_surface = 0x5000, s_font = (if even (n - 1) then 0x2000 else 0x1000),
                  s_text = Some [], s_lastUseTick = 10\<rparr>))"

section \<open>Properties of the key hash\<close>

lemma ucast_inj8: "(ucast (a::8 word) :: 32 word) = ucast b \<Longrightarrow> a = b"
proof -
  assume "(ucast a :: 32 word) = ucast b"
  then have "uint (ucast a :: 32 word) = uint (ucast b :: 32 word)" by simp
  then have "uint a = uint b" by (simp add: uint_up_ucast is_up)
  then show ?thesis by (simp add: word_uint_eq_iff)
qed

lemma mul13_inj: "(x::32 word) * 13 = y * 13 \<Longrightarrow> x = y"
proof -
  assume a: "x * 13 = y * 13"
  have inv: "(13 * 3303820997 :: 32 word) = 1" by simp
  have "x = x * (13 * 3303820997)" unfolding inv by simp
  also have "\<dots> = (x * 13) * 3303820997" by (simp only: mult.assoc)
  also have "\<dots> = (y * 13) * 3303820997" using a by simp
  also have "\<dots> = y * (13 * 3303820997)" by (simp only: mult.assoc)
  also have "\<dots> = y" unfolding inv by simp
  finally show ?thesis .
qed

lemma scast_inj8: "(scast (a::8 word) :: 32 word) = scast b \<Longrightarrow> a = b"
proof -
  assume "(scast a :: 32 word) = scast b"
  then have "sint (scast a :: 32 word) = sint (scast b :: 32 word)" by simp
  then have "sint a = sint b" by (simp add: sint_up_scast is_up)
  then show ?thesis by (rule signed_word_eqI)
qed

lemma char_value_inj: "char_value sc a * 13 = char_value sc b * 13 \<Longrightarrow> a = b"
  by (cases sc) (auto simp: char_value_def dest!: mul13_inj dest: scast_inj8 ucast_inj8)

lemma xor_right_cancel32: "(a::32 word) XOR c = b XOR c \<Longrightarrow> a = b"
proof -
  assume "a XOR c = b XOR c"
  then have "(a XOR c) XOR c = (b XOR c) XOR c" by simp
  then show ?thesis by (simp add: xor.assoc)
qed

lemma xor_left_cancel32: "(c::32 word) XOR a = c XOR b \<Longrightarrow> a = b"
  using xor_right_cancel32 [of a c b] by (simp add: xor.commute)

lemma ror32_xor: "ror32 (a XOR b) n = ror32 a n XOR ror32 b n"
  by (simp add: ror32_def word_rot_logs)

lemma ror32_inj: "ror32 a n = ror32 b n \<Longrightarrow> a = b"
  unfolding ror32_def by (metis word_rot_rl)

lemma hash_loop_c_str: "hash_loop sc h (c_str t) = hash_loop sc h t"
  by (induction t arbitrary: h) auto

lemma hash_loop_foldl:
  "hash_loop sc h t = foldl (\<lambda>acc ch. ror32 acc 3 XOR (char_value sc ch * 13)) h (c_str t)"
  by (induction t arbitrary: h) auto

lemma hash_loop_inj_acc:
  "hash_loop sc h t = hash_loop sc h' t \<Longrightarrow> h = h'"
proof (induction t arbitrary: h h')
  case Nil then show ?case by simp
next
  case (Cons c t)
  show ?case
  proof (cases "c = 0")
    case True with Cons.prems show ?thesis by simp
  next
    case False
    with Cons.prems Cons.IH have "ror32 h 3 XOR char_value sc c * 13 = ror32 h' 3 XOR char_value sc c * 13"
      by simp
    then have "ror32 h 3 = ror32 h' 3" by (rule xor_right_cancel32)
    then show ?thesis by (rule ror32_inj)
  qed
qed

lemma hash_loop_append:
  "0 \<notin> set xs \<Longrightarrow> hash_loop sc h (xs @ ys) = hash_loop sc (hash_loop sc h xs) ys"
  by (induction xs arbitrary: h) auto

lemma hash_one_byte:
  assumes "0 \<notin> set xs" "a \<noteq> 0" "b \<noteq> 0" "a \<noteq> b"
  shows "ttf_surface_cache_hash sc font (xs @ a # ys) \<noteq> ttf_surface_cache_hash sc font (xs @ b # ys)"
proof
  assume eq: "ttf_surface_cache_hash sc font (xs @ a # ys) = ttf_surface_cache_hash sc font (xs @ b # ys)"
  let ?h = "hash_loop sc (hash_seed font) xs"
  from eq assms have "hash_loop sc (ror32 ?h 3 XOR char_value sc a * 13) ys
      = hash_loop sc (ror32 ?h 3 XOR char_value sc b * 13) ys"
    by (simp add: ttf_surface_cache_hash_def hash_loop_append)
  then have "ror32 ?h 3 XOR char_value sc a * 13 = ror32 ?h 3 XOR char_value sc b * 13"
    by (rule hash_loop_inj_acc)
  then have "char_value sc a * 13 = char_value sc b * 13"
    by (rule xor_left_cancel32)
  then have "a = b" by (rule char_value_inj)
  with assms show False by simp
qed

text \<open>
  The seed in 32-bit arithmetic: cutting the 64-bit value to its low 32 bits commutes with
  the multiplication and the XOR, so the seed is the low 32 bits of the pointer times 23,
  XORed with \<^verbatim>\<open>0xAAAAAAAA\<close>. As 23 is odd, multiplication by it is a bijection on
  32-bit values: two fonts have the same seed exactly when their pointers agree in the low
  32 bits.
\<close>

lemma ucast_mult_down: "(ucast (a * b :: 64 word) :: 32 word) = ucast a * ucast b"
proof -
  have "uint (ucast (a * b) :: 32 word) = take_bit 32 (uint a * uint b)"
    by (simp add: unsigned_ucast_eq uint_word_arith_bintrs take_bit_take_bit min_def)
  moreover have "uint ((ucast a :: 32 word) * ucast b) = take_bit 32 (uint a * uint b)"
    by (simp add: unsigned_ucast_eq uint_word_arith_bintrs take_bit_mult)
  ultimately show ?thesis by (simp add: word_uint_eq_iff)
qed

lemma ucast_xor_down: "(ucast (a XOR b :: 64 word) :: 32 word) = ucast a XOR ucast b"
  by (rule bit_word_eqI) (auto simp add: bit_simps)

lemma ucast_and_mask: "(ucast (a AND 0xFFFFFFFF :: 64 word) :: 32 word) = ucast a"
proof -
  have m: "(0xFFFFFFFF :: 64 word) = mask 32" by (simp add: mask_eq_exp_minus_1)
  show ?thesis unfolding m by (rule bit_word_eqI) (auto simp add: bit_simps)
qed

lemma hash_seed_32: "hash_seed font = ucast font * 23 XOR 0xAAAAAAAA"
  by (simp add: hash_seed_def ucast_and_mask ucast_xor_down ucast_mult_down)

lemma mul23_inj: "(x::32 word) * 23 = y * 23 \<Longrightarrow> x = y"
proof -
  assume a: "x * 23 = y * 23"
  have inv: "(23 * 3921491879 :: 32 word) = 1" by simp
  have "x = x * (23 * 3921491879)" unfolding inv by simp
  also have "\<dots> = (x * 23) * 3921491879" by (simp only: mult.assoc)
  also have "\<dots> = (y * 23) * 3921491879" using a by simp
  also have "\<dots> = y * (23 * 3921491879)" by (simp only: mult.assoc)
  also have "\<dots> = y" unfolding inv by simp
  finally show ?thesis .
qed

lemma hash_seed_inj: "hash_seed f = hash_seed f' \<longleftrightarrow> (ucast f :: 32 word) = ucast f'"
proof
  assume "hash_seed f = hash_seed f'"
  then have "(ucast f :: 32 word) * 23 = ucast f' * 23"
    unfolding hash_seed_32 by (rule xor_right_cancel32)
  then show "(ucast f :: 32 word) = ucast f'" by (rule mul23_inj)
next
  assume "(ucast f :: 32 word) = ucast f'"
  then show "hash_seed f = hash_seed f'" by (simp add: hash_seed_32)
qed

text \<open>
  Claim C8. The hash is a function of the font and of the C string alone, so equal fonts and
  equal texts give equal 32-bit results. Its seed is the font's pointer value multiplied by
  the odd constant 23 and XORed with the bit pattern \<^verbatim>\<open>0xAAAAAAAA\<close>, in 32 bits; two
  fonts have the same seed exactly when their pointer values agree in the low 32 bits. The
  hash is that seed folded over the bytes of the text by "rotate the accumulator right by 3
  bits, XOR with the character value times 13" (the character value is the byte sign-extended
  where plain \<^verbatim>\<open>char\<close> is signed, zero-extended where it is not); for the empty text it
  is the seed; and two texts of the same length that differ in exactly one byte hash
  differently under the same font (multiplication by 13 is injective on 32-bit values, the
  rotation is a bijection, and XOR with the common rest cancels).
\<close>

theorem ttf_surface_cache_hash_properties:
  "(c_str str = c_str str' \<longrightarrow>
      ttf_surface_cache_hash sc font str = ttf_surface_cache_hash sc font str')
   \<and> hash_seed font = ucast font * 23 XOR 0xAAAAAAAA
   \<and> (hash_seed font = hash_seed font' \<longleftrightarrow> (ucast font :: 32 word) = ucast font')
   \<and> ttf_surface_cache_hash sc font str
       = foldl (\<lambda>acc ch. word_rotr 3 acc XOR ((if sc then scast ch else ucast ch) * 13))
           (ucast font * 23 XOR 0xAAAAAAAA) (c_str str)
   \<and> ttf_surface_cache_hash sc font [] = ucast font * 23 XOR 0xAAAAAAAA
   \<and> (0 \<notin> set xs \<and> a \<noteq> 0 \<and> b \<noteq> 0 \<and> a \<noteq> b \<longrightarrow>
        ttf_surface_cache_hash sc font (xs @ a # ys) \<noteq> ttf_surface_cache_hash sc font (xs @ b # ys))"
proof (intro conjI impI)
  assume "c_str str = c_str str'"
  then show "ttf_surface_cache_hash sc font str = ttf_surface_cache_hash sc font str'"
    unfolding ttf_surface_cache_hash_def by (metis hash_loop_c_str)
next
  show "hash_seed font = ucast font * 23 XOR 0xAAAAAAAA" by (rule hash_seed_32)
next
  show "(hash_seed font = hash_seed font') = ((ucast font :: 32 word) = ucast font')"
    by (rule hash_seed_inj)
next
  have "ttf_surface_cache_hash sc font str
       = foldl (\<lambda>acc ch. ror32 acc 3 XOR (char_value sc ch * 13)) (hash_seed font) (c_str str)"
    unfolding ttf_surface_cache_hash_def by (rule hash_loop_foldl)
  then show "ttf_surface_cache_hash sc font str
       = foldl (\<lambda>acc ch. word_rotr 3 acc XOR ((if sc then scast ch else ucast ch) * 13))
           (ucast font * 23 XOR 0xAAAAAAAA) (c_str str)"
    by (simp add: hash_seed_32 ror32_def char_value_def)
next
  show "ttf_surface_cache_hash sc font [] = ucast font * 23 XOR 0xAAAAAAAA"
    by (simp add: ttf_surface_cache_hash_def hash_seed_32)
next
  assume "0 \<notin> set xs \<and> a \<noteq> 0 \<and> b \<noteq> 0 \<and> a \<noteq> b"
  then show "ttf_surface_cache_hash sc font (xs @ a # ys) \<noteq> ttf_surface_cache_hash sc font (xs @ b # ys)"
    using hash_one_byte by blast
qed

theorem ttf_surface_cache_hash_properties_witness:
  "c_str [65] = c_str [65, 0, 66]
   \<and> ttf_surface_cache_hash True 0x1000 [65] = ttf_surface_cache_hash True 0x1000 [65, 0, 66]
   \<and> hash_seed 0x1000 = 0xAAABDAAA
   \<and> hash_seed 0x2000 = 0xAAA84AAA
   \<and> ttf_surface_cache_hash True 0x1000 [] = 0xAAABDAAA
   \<and> ttf_surface_cache_hash True 0x2000 [] = 0xAAA84AAA
   \<and> ttf_surface_cache_hash True 0x1000 [65] = word_rotr 3 0xAAABDAAA XOR 845
   \<and> (0::utf8) \<notin> set [72, 105] \<and> (33::utf8) \<noteq> 0 \<and> (63::utf8) \<noteq> 0 \<and> (33::utf8) \<noteq> 63
   \<and> ttf_surface_cache_hash True 0x1000 ([72, 105] @ 33 # [10])
       \<noteq> ttf_surface_cache_hash True 0x1000 ([72, 105] @ 63 # [10])"
  using ttf_surface_cache_hash_properties
          [of "[65]" "[65, 0, 66]" True "0x1000" "0x2000" "[72, 105]" 33 63 "[10]"]
    ttf_surface_cache_hash_properties [of "[]" "[]" True "0x2000" "0x1000" "[]" 1 2 "[]"]
  by auto

section \<open>The probe loops, pass by pass\<close>

lemma next_index: "(index::nat) < N \<Longrightarrow> (if N \<le> index + 1 then 0 else index + 1) = (index + 1) mod N"
proof (cases "N \<le> index + 1")
  case True
  assume "index < N"
  with True have "index + 1 = N" by arith
  then show ?thesis by simp
next
  case False
  then show ?thesis by simp
qed

lemma probe_sequence_step:
  assumes "index < N"
  shows "map (\<lambda>k. (index + k) mod N) [0..<Suc n]
      = index # map (\<lambda>k. ((index + 1) mod N + k) mod N) [0..<n]"
proof -
  have "[0..<Suc n] = 0 # map Suc [0..<n]"
    by (simp add: upt_conv_Cons map_Suc_upt del: upt_Suc)
  then show ?thesis using assms by (simp add: o_def mod_simps del: upt_Suc)
qed

lemma probe_loop_spec:
  "index < N \<Longrightarrow> n \<le> N \<Longrightarrow>
   probe_loop N rule (N - n) index =
     (case spec_probe rule (map (\<lambda>k. (index + k) mod N) [0..<n]) of
        Some r \<Rightarrow> r | None \<Rightarrow> Miss ((index + n) mod N))"
proof (induction n arbitrary: index)
  case 0
  then show ?case by (subst probe_loop.simps) simp
next
  case (Suc n)
  let ?next = "(index + 1) mod N"
  have nx: "?next < N" using Suc.prems by simp
  have lt: "N - Suc n < N" using Suc.prems by simp
  have step: "N - Suc n + 1 = N - n" using Suc.prems by simp
  have last: "(?next + n) mod N = (index + Suc n) mod N" by (simp add: mod_simps)
  have IH: "probe_loop N rule (N - n) ?next =
     (case spec_probe rule (map (\<lambda>k. (?next + k) mod N) [0..<n]) of
        Some r \<Rightarrow> r | None \<Rightarrow> Miss ((index + Suc n) mod N))"
    using Suc.IH [OF nx] Suc.prems by (simp only: last)
  have unfold: "probe_loop N rule (N - Suc n) index =
     (case rule index of
           Rule_empty \<Rightarrow> Miss index
         | Rule_hit \<Rightarrow> Hit index
         | Rule_stale \<Rightarrow> Miss index
         | Rule_continue \<Rightarrow> probe_loop N rule (N - n) ?next)"
    by (subst probe_loop.simps) (simp only: lt if_True step next_index [OF Suc.prems(1)])
  show ?case
    unfolding unfold probe_sequence_step [OF Suc.prems(1)] IH
    by (cases "rule index") simp_all
qed

lemma probe_loop_spec0:
  assumes "home < N"
  shows "probe_loop N rule 0 home =
     (case spec_probe rule (spec_probe_sequence N home) of
        Some r \<Rightarrow> r | None \<Rightarrow> Miss home)"
  using probe_loop_spec [OF assms, of N rule] assms
  by (simp add: spec_probe_sequence_def split: option.splits)

lemma surface_probe_loop:
  "ttf_surface_cache_probe cache tick font str i index
     = probe_loop TTF_SURFACE_CACHE_SIZE (surface_slot_rule cache tick font str) i index"
proof (induction cache tick font str i index rule: ttf_surface_cache_probe.induct)
  case (1 cache tick font str i index)
  have m: "s_matches (cache ! index) font str \<longleftrightarrow>
      (s_font (cache ! index) = font \<and> map_option c_str (s_text (cache ! index)) = Some (c_str str))"
    by (simp add: s_matches_def strcmp_eq_def split: option.splits)
  show ?case
  proof (cases "i < TTF_SURFACE_CACHE_SIZE")
    case False
    then show ?thesis
      by (subst ttf_surface_cache_probe.simps, subst probe_loop.simps) simp
  next
    case True
    show ?thesis
    proof (cases "surface_slot_rule cache tick font str index = Rule_continue")
      case False
      then show ?thesis
        by (subst ttf_surface_cache_probe.simps, subst probe_loop.simps)
           (simp add: True surface_slot_rule_def m Let_def split: if_splits)
    next
      case c: True
      then have *: "s_surface (cache ! index) \<noteq> nullptr" "\<not> s_matches (cache ! index) font str"
          "\<not> s_lastUseTick (cache ! index) < tick - 64"
        by (simp_all add: surface_slot_rule_def m split: if_splits)
      show ?thesis
        apply (subst ttf_surface_cache_probe.simps)
        apply (subst probe_loop.simps)
        apply (simp only: True c * Let_def if_True if_False slot_rule.case)
        apply (rule "1.IH" [OF True refl])
        using * by simp_all
    qed
  qed
qed

lemma getwidth_probe_loop:
  "ttf_getwidth_cache_probe cache tick font str i index
     = probe_loop TTF_GETWIDTH_CACHE_SIZE (getwidth_slot_rule cache tick font str) i index"
proof (induction cache tick font str i index rule: ttf_getwidth_cache_probe.induct)
  case (1 cache tick font str i index)
  have m: "w_matches (cache ! index) font str \<longleftrightarrow>
      (w_font (cache ! index) = font \<and> map_option c_str (w_text (cache ! index)) = Some (c_str str))"
    by (simp add: w_matches_def strcmp_eq_def split: option.splits)
  show ?case
  proof (cases "i < TTF_GETWIDTH_CACHE_SIZE")
    case False
    then show ?thesis
      by (subst ttf_getwidth_cache_probe.simps, subst probe_loop.simps) simp
  next
    case True
    show ?thesis
    proof (cases "getwidth_slot_rule cache tick font str index = Rule_continue")
      case False
      then show ?thesis
        by (subst ttf_getwidth_cache_probe.simps, subst probe_loop.simps)
           (simp add: True getwidth_slot_rule_def m Let_def split: if_splits)
    next
      case c: True
      then have *: "w_text (cache ! index) \<noteq> None" "\<not> w_matches (cache ! index) font str"
          "\<not> w_lastUseTick (cache ! index) < tick - 64"
        by (simp_all add: getwidth_slot_rule_def m split: if_splits)
      show ?thesis
        apply (subst ttf_getwidth_cache_probe.simps)
        apply (subst probe_loop.simps)
        apply (simp only: True c * Let_def if_True if_False slot_rule.case)
        apply (rule "1.IH" [OF True refl])
        using * by simp_all
    qed
  qed
qed

lemma surface_home_index_less: "surface_home_index env font str < TTF_SURFACE_CACHE_SIZE"
  by (simp add: surface_home_index_def TTF_SURFACE_CACHE_SIZE_def)

lemma getwidth_home_index_less: "getwidth_home_index env font str < TTF_GETWIDTH_CACHE_SIZE"
  by (simp add: getwidth_home_index_def TTF_GETWIDTH_CACHE_SIZE_def)

lemma surface_lookup_spec:
  "ttf_surface_cache_lookup env font str s =
     (case spec_probe (surface_slot_rule (ttfSurfaceCache s) (gCurrentDrawCount s) font str)
             (spec_probe_sequence TTF_SURFACE_CACHE_SIZE (surface_home_index env font str)) of
        Some r \<Rightarrow> r | None \<Rightarrow> Miss (surface_home_index env font str))"
  unfolding ttf_surface_cache_lookup_def surface_probe_loop
  by (rule probe_loop_spec0 [OF surface_home_index_less])

lemma getwidth_lookup_spec:
  "ttf_getwidth_cache_lookup env font str s =
     (case spec_probe (getwidth_slot_rule (ttfGetWidthCache s) (gCurrentDrawCount s) font str)
             (spec_probe_sequence TTF_GETWIDTH_CACHE_SIZE (getwidth_home_index env font str)) of
        Some r \<Rightarrow> r | None \<Rightarrow> Miss (getwidth_home_index env font str))"
  unfolding ttf_getwidth_cache_lookup_def getwidth_probe_loop
  by (rule probe_loop_spec0 [OF getwidth_home_index_less])

lemma spec_probe_in_set:
  "spec_probe rule xs = Some r \<Longrightarrow> (\<exists>j\<in>set xs. r = Hit j \<or> r = Miss j)"
  by (induction xs) (auto split: slot_rule.splits)

lemma spec_probe_sequence_set: "j \<in> set (spec_probe_sequence N home) \<Longrightarrow> j < N"
  by (auto simp: spec_probe_sequence_def)

lemma surface_hit_effect:
  assumes "ttf_surface_cache_lookup env font str s = Hit j"
  shows "ttf_surface_cache_get_or_add env font str s =
     (s_surface (ttfSurfaceCache s ! j),
      s\<lparr>ttfSurfaceCacheHitCount := ttfSurfaceCacheHitCount s + 1,
        ttfSurfaceCache := (ttfSurfaceCache s)
          [j := (ttfSurfaceCache s ! j)\<lparr>s_lastUseTick := gCurrentDrawCount s\<rparr>]\<rparr>)"
  by (simp add: ttf_surface_cache_get_or_add_def assms)

lemma getwidth_hit_effect:
  assumes "ttf_getwidth_cache_lookup env font str s = Hit j"
  shows "ttf_getwidth_cache_get_or_add env font str s =
     (w_width (ttfGetWidthCache s ! j),
      s\<lparr>ttfGetWidthCacheHitCount := ttfGetWidthCacheHitCount s + 1,
        ttfGetWidthCache := (ttfGetWidthCache s)
          [j := (ttfGetWidthCache s ! j)\<lparr>w_lastUseTick := gCurrentDrawCount s\<rparr>]\<rparr>)"
  by (simp add: ttf_getwidth_cache_get_or_add_def assms)


lemma surface_dispose_fields [simp]:
  "ttfSurfaceCacheCount (ttf_surface_cache_dispose i s) = ttfSurfaceCacheCount s"
  "ttfSurfaceCacheHitCount (ttf_surface_cache_dispose i s) = ttfSurfaceCacheHitCount s"
  "ttfSurfaceCacheMissCount (ttf_surface_cache_dispose i s) = ttfSurfaceCacheMissCount s"
  "ttfGetWidthCache (ttf_surface_cache_dispose i s) = ttfGetWidthCache s"
  "ttfGetWidthCacheCount (ttf_surface_cache_dispose i s) = ttfGetWidthCacheCount s"
  "ttfGetWidthCacheHitCount (ttf_surface_cache_dispose i s) = ttfGetWidthCacheHitCount s"
  "ttfGetWidthCacheMissCount (ttf_surface_cache_dispose i s) = ttfGetWidthCacheMissCount s"
  "gCurrentDrawCount (ttf_surface_cache_dispose i s) = gCurrentDrawCount s"
  "fontHinting (ttf_surface_cache_dispose i s) = fontHinting s"
  "length (ttfSurfaceCache (ttf_surface_cache_dispose i s)) = length (ttfSurfaceCache s)"
  "render_calls (ttf_surface_cache_dispose i s) = render_calls s"
  by (simp_all add: ttf_surface_cache_dispose_def Let_def render_calls_def)

lemma surface_dispose_cache:
  "ttfSurfaceCache (ttf_surface_cache_dispose i s) =
     (if s_surface (ttfSurfaceCache s ! i) \<noteq> nullptr
      then (ttfSurfaceCache s)
             [i := (ttfSurfaceCache s ! i)\<lparr>s_surface := nullptr, s_font := nullptr, s_text := None\<rparr>]
      else ttfSurfaceCache s)"
  by (simp add: ttf_surface_cache_dispose_def Let_def)

lemma surface_dispose_slot:
  "i < length (ttfSurfaceCache s) \<Longrightarrow>
     s_surface (ttfSurfaceCache (ttf_surface_cache_dispose i s) ! i) = nullptr"
  by (simp add: surface_dispose_cache)

lemma surface_dispose_other:
  "k \<noteq> i \<Longrightarrow> ttfSurfaceCache (ttf_surface_cache_dispose i s) ! k = ttfSurfaceCache s ! k"
  by (simp add: surface_dispose_cache)

lemma getwidth_dispose_fields [simp]:
  "ttfSurfaceCache (ttf_getwidth_cache_dispose i s) = ttfSurfaceCache s"
  "ttfSurfaceCacheCount (ttf_getwidth_cache_dispose i s) = ttfSurfaceCacheCount s"
  "ttfSurfaceCacheHitCount (ttf_getwidth_cache_dispose i s) = ttfSurfaceCacheHitCount s"
  "ttfSurfaceCacheMissCount (ttf_getwidth_cache_dispose i s) = ttfSurfaceCacheMissCount s"
  "ttfGetWidthCacheCount (ttf_getwidth_cache_dispose i s) = ttfGetWidthCacheCount s"
  "ttfGetWidthCacheHitCount (ttf_getwidth_cache_dispose i s) = ttfGetWidthCacheHitCount s"
  "ttfGetWidthCacheMissCount (ttf_getwidth_cache_dispose i s) = ttfGetWidthCacheMissCount s"
  "gCurrentDrawCount (ttf_getwidth_cache_dispose i s) = gCurrentDrawCount s"
  "fontHinting (ttf_getwidth_cache_dispose i s) = fontHinting s"
  "length (ttfGetWidthCache (ttf_getwidth_cache_dispose i s)) = length (ttfGetWidthCache s)"
  "render_calls (ttf_getwidth_cache_dispose i s) = render_calls s"
  by (simp_all add: ttf_getwidth_cache_dispose_def Let_def render_calls_def)

lemma getwidth_dispose_cache:
  "ttfGetWidthCache (ttf_getwidth_cache_dispose i s) =
     (if w_text (ttfGetWidthCache s ! i) \<noteq> None
      then (ttfGetWidthCache s)
             [i := (ttfGetWidthCache s ! i)\<lparr>w_width := 0, w_font := nullptr, w_text := None\<rparr>]
      else ttfGetWidthCache s)"
  by (simp add: ttf_getwidth_cache_dispose_def Let_def)

lemma render_fields [simp]:
  "ttfSurfaceCache (snd (ttf_render env font str s)) = ttfSurfaceCache s"
  "ttfSurfaceCacheCount (snd (ttf_render env font str s)) = ttfSurfaceCacheCount s"
  "ttfSurfaceCacheHitCount (snd (ttf_render env font str s)) = ttfSurfaceCacheHitCount s"
  "ttfSurfaceCacheMissCount (snd (ttf_render env font str s)) = ttfSurfaceCacheMissCount s"
  "ttfGetWidthCache (snd (ttf_render env font str s)) = ttfGetWidthCache s"
  "ttfGetWidthCacheCount (snd (ttf_render env font str s)) = ttfGetWidthCacheCount s"
  "ttfGetWidthCacheHitCount (snd (ttf_render env font str s)) = ttfGetWidthCacheHitCount s"
  "ttfGetWidthCacheMissCount (snd (ttf_render env font str s)) = ttfGetWidthCacheMissCount s"
  "gCurrentDrawCount (snd (ttf_render env font str s)) = gCurrentDrawCount s"
  "fontHinting (snd (ttf_render env font str s)) = fontHinting s"
  "render_calls (snd (ttf_render env font str s)) = render_calls s + 1"
  by (simp_all add: ttf_render_def render_calls_def)

lemma get_size_fields [simp]:
  "ttfSurfaceCache (snd (ttf_get_size env font str s)) = ttfSurfaceCache s"
  "ttfSurfaceCacheCount (snd (ttf_get_size env font str s)) = ttfSurfaceCacheCount s"
  "ttfSurfaceCacheHitCount (snd (ttf_get_size env font str s)) = ttfSurfaceCacheHitCount s"
  "ttfSurfaceCacheMissCount (snd (ttf_get_size env font str s)) = ttfSurfaceCacheMissCount s"
  "ttfGetWidthCache (snd (ttf_get_size env font str s)) = ttfGetWidthCache s"
  "ttfGetWidthCacheCount (snd (ttf_get_size env font str s)) = ttfGetWidthCacheCount s"
  "ttfGetWidthCacheHitCount (snd (ttf_get_size env font str s)) = ttfGetWidthCacheHitCount s"
  "ttfGetWidthCacheMissCount (snd (ttf_get_size env font str s)) = ttfGetWidthCacheMissCount s"
  "gCurrentDrawCount (snd (ttf_get_size env font str s)) = gCurrentDrawCount s"
  "fontHinting (snd (ttf_get_size env font str s)) = fontHinting s"
  "render_calls (snd (ttf_get_size env font str s)) = render_calls s"
  by (simp_all add: ttf_get_size_def render_calls_def)

text \<open>The miss path written out: the pointer the renderer returns, and the state.\<close>

lemma surface_miss_effect:
  assumes "ttf_surface_cache_lookup env font str s = Miss j"
  shows "ttf_surface_cache_get_or_add env font str s =
     (let r = ttf_render env font str (ttf_surface_cache_dispose j s) in
      if fst r = nullptr then (nullptr, snd r)
      else (fst r,
            (snd r)\<lparr>ttfSurfaceCacheMissCount := ttfSurfaceCacheMissCount s + 1,
                    ttfSurfaceCacheCount := ttfSurfaceCacheCount s + 1,
                    ttfSurfaceCache := (ttfSurfaceCache (ttf_surface_cache_dispose j s))
                      [j := \<lparr>s_surface = fst r, s_font = font, s_text = Some (c_str str),
                             s_lastUseTick = gCurrentDrawCount s\<rparr>]\<rparr>))"
  by (simp add: ttf_surface_cache_get_or_add_def assms Let_def split_beta strdup_def)

lemma getwidth_miss_effect:
  assumes "ttf_getwidth_cache_lookup env font str s = Miss j"
  shows "ttf_getwidth_cache_get_or_add env font str s =
     (let r = ttf_get_size env font str (ttf_getwidth_cache_dispose j s) in
      (fst r,
            (snd r)\<lparr>ttfGetWidthCacheMissCount := ttfGetWidthCacheMissCount s + 1,
                    ttfGetWidthCacheCount := ttfGetWidthCacheCount s + 1,
                    ttfGetWidthCache := (ttfGetWidthCache (ttf_getwidth_cache_dispose j s))
                      [j := \<lparr>w_width = fst r, w_font = font, w_text = Some (c_str str),
                             w_lastUseTick = gCurrentDrawCount s\<rparr>]\<rparr>))"
  by (simp add: ttf_getwidth_cache_get_or_add_def assms Let_def split_beta strdup_def)

lemma spec_probe_sequence_Cons:
  assumes "home < N"
  shows "spec_probe_sequence N home = home # map (\<lambda>k. (home + k) mod N) [1..<N]"
proof -
  from assms have "[0..<N] = 0 # [1..<N]" by (simp add: upt_conv_Cons)
  then show ?thesis using assms by (simp add: spec_probe_sequence_def)
qed

lemma spec_probe_home:
  assumes "home < N" "rule home \<noteq> Rule_continue"
  shows "spec_probe rule (spec_probe_sequence N home)
           = Some (if rule home = Rule_hit then Hit home else Miss home)"
  using assms(2) unfolding spec_probe_sequence_Cons [OF assms(1)]
  by (cases "rule home") simp_all

lemma surface_lookup_home:
  assumes "surface_slot_rule (ttfSurfaceCache s) (gCurrentDrawCount s) font str
             (surface_home_index env font str) \<noteq> Rule_continue"
  shows "ttf_surface_cache_lookup env font str s =
     (if surface_slot_rule (ttfSurfaceCache s) (gCurrentDrawCount s) font str
             (surface_home_index env font str) = Rule_hit
      then Hit (surface_home_index env font str) else Miss (surface_home_index env font str))"
  using assms
  by (simp add: surface_lookup_spec spec_probe_home [of _ TTF_SURFACE_CACHE_SIZE] surface_home_index_less)

lemma getwidth_lookup_home:
  assumes "getwidth_slot_rule (ttfGetWidthCache s) (gCurrentDrawCount s) font str
             (getwidth_home_index env font str) \<noteq> Rule_continue"
  shows "ttf_getwidth_cache_lookup env font str s =
     (if getwidth_slot_rule (ttfGetWidthCache s) (gCurrentDrawCount s) font str
             (getwidth_home_index env font str) = Rule_hit
      then Hit (getwidth_home_index env font str) else Miss (getwidth_home_index env font str))"
  using assms
  by (simp add: getwidth_lookup_spec spec_probe_home [of _ TTF_GETWIDTH_CACHE_SIZE] getwidth_home_index_less)

lemma initial_state_sized: "tables_sized (initial_state tick)"
  by (simp add: tables_sized_def initial_state_def)

lemma initial_surface_rule:
  "surface_slot_rule (ttfSurfaceCache (initial_state tick)) t font str
     (surface_home_index env font str) = Rule_empty"
  using surface_home_index_less [of env font str]
  by (simp add: surface_slot_rule_def initial_state_def empty_surface_entry_def)

lemma initial_getwidth_rule:
  "getwidth_slot_rule (ttfGetWidthCache (initial_state tick)) t font str
     (getwidth_home_index env font str) = Rule_empty"
  using getwidth_home_index_less [of env font str]
  by (simp add: getwidth_slot_rule_def initial_state_def empty_getwidth_entry_def)

lemma initial_surface_lookup:
  "ttf_surface_cache_lookup env font str (initial_state tick) = Miss (surface_home_index env font str)"
  by (subst surface_lookup_home) (simp_all add: initial_surface_rule)

lemma cached_state_eq:
  "cached_state =
     (initial_state 100)
       \<lparr>ttfSurfaceCache := (replicate TTF_SURFACE_CACHE_SIZE empty_surface_entry)
          [surface_home_index working_env 0x1000 [72, 105] :=
             \<lparr>s_surface = 0x5000, s_font = 0x1000, s_text = Some [72, 105], s_lastUseTick = 100\<rparr>],
        ttfSurfaceCacheCount := 1, ttfSurfaceCacheMissCount := 1,
        ttfGetWidthCache := (replicate TTF_GETWIDTH_CACHE_SIZE empty_getwidth_entry)
          [getwidth_home_index working_env 0x1000 [72, 105] :=
             \<lparr>w_width = 14, w_font = 0x1000, w_text = Some [72, 105], w_lastUseTick = 100\<rparr>],
        ttfGetWidthCacheCount := 1, ttfGetWidthCacheMissCount := 1,
        calls := [Call_TTF_RenderUTF8_Solid 0x1000 [72, 105], Call_TTF_SizeUTF8 0x1000 [72, 105]]\<rparr>"
proof -
  let ?s0 = "initial_state 100"
  have l1: "ttf_surface_cache_lookup working_env 0x1000 [72, 105] ?s0
      = Miss (surface_home_index working_env 0x1000 [72, 105])"
    by (rule initial_surface_lookup)
  have d1: "ttf_surface_cache_dispose (surface_home_index working_env 0x1000 [72, 105]) ?s0 = ?s0"
    using surface_home_index_less [of working_env 4096 "[72, 105]"]
    by (simp add: ttf_surface_cache_dispose_def initial_state_def empty_surface_entry_def)
  let ?s1 = "snd (ttf_surface_cache_get_or_add working_env 0x1000 [72, 105] ?s0)"
  have s1: "?s1 = ?s0
       \<lparr>ttfSurfaceCache := (replicate TTF_SURFACE_CACHE_SIZE empty_surface_entry)
          [surface_home_index working_env 0x1000 [72, 105] :=
             \<lparr>s_surface = 0x5000, s_font = 0x1000, s_text = Some [72, 105], s_lastUseTick = 100\<rparr>],
        ttfSurfaceCacheCount := 1, ttfSurfaceCacheMissCount := 1,
        calls := [Call_TTF_RenderUTF8_Solid 0x1000 [72, 105]]\<rparr>"
    unfolding surface_miss_effect [OF l1] d1
    by (simp add: ttf_render_def initial_state_def working_env_def nullptr_def Let_def)
  have l2: "ttf_getwidth_cache_lookup working_env 0x1000 [72, 105] ?s1
      = Miss (getwidth_home_index working_env 0x1000 [72, 105])"
    using getwidth_home_index_less [of working_env 4096 "[72, 105]"]
    unfolding s1
    by (subst getwidth_lookup_home)
       (simp_all add: getwidth_slot_rule_def initial_state_def empty_getwidth_entry_def)
  have d2: "ttf_getwidth_cache_dispose (getwidth_home_index working_env 0x1000 [72, 105]) ?s1 = ?s1"
    using getwidth_home_index_less [of working_env 4096 "[72, 105]"]
    unfolding s1
    by (simp add: ttf_getwidth_cache_dispose_def initial_state_def empty_getwidth_entry_def)
  show ?thesis
    unfolding cached_state_def getwidth_miss_effect [OF l2] d2
    unfolding s1
    by (simp add: ttf_get_size_def initial_state_def working_env_def Let_def)
qed

lemma cached_state_sized: "tables_sized cached_state"
  by (simp add: cached_state_eq tables_sized_def initial_state_def)

lemma cached_surface_rule:
  "surface_slot_rule (ttfSurfaceCache cached_state) t 0x1000 [72, 105]
     (surface_home_index working_env 0x1000 [72, 105]) = Rule_hit"
  using surface_home_index_less [of working_env 4096 "[72, 105]"]
  by (simp add: cached_state_eq surface_slot_rule_def initial_state_def nullptr_def)

lemma cached_getwidth_rule:
  "getwidth_slot_rule (ttfGetWidthCache cached_state) t 0x1000 [72, 105]
     (getwidth_home_index working_env 0x1000 [72, 105]) = Rule_hit"
  using getwidth_home_index_less [of working_env 4096 "[72, 105]"]
  by (simp add: cached_state_eq getwidth_slot_rule_def initial_state_def)

section \<open>Disposal of a whole table\<close>

lemma surface_dispose_all_body_fields [simp]:
  "ttfSurfaceCacheCount (surface_dispose_all_body i s) = ttfSurfaceCacheCount s - 1"
  "ttfSurfaceCacheHitCount (surface_dispose_all_body i s) = ttfSurfaceCacheHitCount s"
  "ttfSurfaceCacheMissCount (surface_dispose_all_body i s) = ttfSurfaceCacheMissCount s"
  "ttfGetWidthCache (surface_dispose_all_body i s) = ttfGetWidthCache s"
  "ttfGetWidthCacheCount (surface_dispose_all_body i s) = ttfGetWidthCacheCount s"
  "ttfGetWidthCacheHitCount (surface_dispose_all_body i s) = ttfGetWidthCacheHitCount s"
  "ttfGetWidthCacheMissCount (surface_dispose_all_body i s) = ttfGetWidthCacheMissCount s"
  "gCurrentDrawCount (surface_dispose_all_body i s) = gCurrentDrawCount s"
  "fontHinting (surface_dispose_all_body i s) = fontHinting s"
  "length (ttfSurfaceCache (surface_dispose_all_body i s)) = length (ttfSurfaceCache s)"
  "calls (surface_dispose_all_body i s) = calls (ttf_surface_cache_dispose i s)"
  "ttfSurfaceCache (surface_dispose_all_body i s) = ttfSurfaceCache (ttf_surface_cache_dispose i s)"
  by (simp_all add: surface_dispose_all_body_def Let_def)

lemma surface_dispose_all_body_render_calls [simp]:
  "render_calls (surface_dispose_all_body i s) = render_calls s"
  using surface_dispose_fields(11) [of i s] by (simp add: render_calls_def)

lemma getwidth_dispose_all_body_fields [simp]:
  "ttfSurfaceCache (getwidth_dispose_all_body i s) = ttfSurfaceCache s"
  "ttfSurfaceCacheCount (getwidth_dispose_all_body i s) = ttfSurfaceCacheCount s"
  "ttfSurfaceCacheHitCount (getwidth_dispose_all_body i s) = ttfSurfaceCacheHitCount s"
  "ttfSurfaceCacheMissCount (getwidth_dispose_all_body i s) = ttfSurfaceCacheMissCount s"
  "ttfGetWidthCacheCount (getwidth_dispose_all_body i s) = ttfGetWidthCacheCount s - 1"
  "ttfGetWidthCacheHitCount (getwidth_dispose_all_body i s) = ttfGetWidthCacheHitCount s"
  "ttfGetWidthCacheMissCount (getwidth_dispose_all_body i s) = ttfGetWidthCacheMissCount s"
  "gCurrentDrawCount (getwidth_dispose_all_body i s) = gCurrentDrawCount s"
  "fontHinting (getwidth_dispose_all_body i s) = fontHinting s"
  "length (ttfGetWidthCache (getwidth_dispose_all_body i s)) = length (ttfGetWidthCache s)"
  "calls (getwidth_dispose_all_body i s) = calls (ttf_getwidth_cache_dispose i s)"
  "ttfGetWidthCache (getwidth_dispose_all_body i s) = ttfGetWidthCache (ttf_getwidth_cache_dispose i s)"
  by (simp_all add: getwidth_dispose_all_body_def Let_def)

lemma getwidth_dispose_all_body_render_calls [simp]:
  "render_calls (getwidth_dispose_all_body i s) = render_calls s"
  using getwidth_dispose_fields(11) [of i s] by (simp add: render_calls_def)

lemma surface_dispose_loop:
  "n \<le> length (ttfSurfaceCache s) \<Longrightarrow>
   ttfSurfaceCacheCount (fold surface_dispose_all_body [0..<n] s) = ttfSurfaceCacheCount s - of_nat n
   \<and> length (ttfSurfaceCache (fold surface_dispose_all_body [0..<n] s)) = length (ttfSurfaceCache s)
   \<and> (\<forall>i<n. s_surface (ttfSurfaceCache (fold surface_dispose_all_body [0..<n] s) ! i) = nullptr)
   \<and> (\<forall>i\<ge>n. ttfSurfaceCache (fold surface_dispose_all_body [0..<n] s) ! i = ttfSurfaceCache s ! i)
   \<and> ttfSurfaceCacheHitCount (fold surface_dispose_all_body [0..<n] s) = ttfSurfaceCacheHitCount s
   \<and> ttfSurfaceCacheMissCount (fold surface_dispose_all_body [0..<n] s) = ttfSurfaceCacheMissCount s
   \<and> ttfGetWidthCache (fold surface_dispose_all_body [0..<n] s) = ttfGetWidthCache s
   \<and> ttfGetWidthCacheCount (fold surface_dispose_all_body [0..<n] s) = ttfGetWidthCacheCount s
   \<and> ttfGetWidthCacheHitCount (fold surface_dispose_all_body [0..<n] s) = ttfGetWidthCacheHitCount s
   \<and> ttfGetWidthCacheMissCount (fold surface_dispose_all_body [0..<n] s) = ttfGetWidthCacheMissCount s
   \<and> gCurrentDrawCount (fold surface_dispose_all_body [0..<n] s) = gCurrentDrawCount s
   \<and> fontHinting (fold surface_dispose_all_body [0..<n] s) = fontHinting s
   \<and> render_calls (fold surface_dispose_all_body [0..<n] s) = render_calls s"
proof (induction n)
  case 0
  then show ?case by simp
next
  case (Suc n)
  let ?t = "fold surface_dispose_all_body [0..<n] s"
  from Suc have IH:
    "ttfSurfaceCacheCount ?t = ttfSurfaceCacheCount s - of_nat n"
    "length (ttfSurfaceCache ?t) = length (ttfSurfaceCache s)"
    "\<forall>i<n. s_surface (ttfSurfaceCache ?t ! i) = nullptr"
    "\<forall>i\<ge>n. ttfSurfaceCache ?t ! i = ttfSurfaceCache s ! i"
    "ttfSurfaceCacheHitCount ?t = ttfSurfaceCacheHitCount s"
    "ttfSurfaceCacheMissCount ?t = ttfSurfaceCacheMissCount s"
    "ttfGetWidthCache ?t = ttfGetWidthCache s"
    "ttfGetWidthCacheCount ?t = ttfGetWidthCacheCount s"
    "ttfGetWidthCacheHitCount ?t = ttfGetWidthCacheHitCount s"
    "ttfGetWidthCacheMissCount ?t = ttfGetWidthCacheMissCount s"
    "gCurrentDrawCount ?t = gCurrentDrawCount s"
    "fontHinting ?t = fontHinting s"
    "render_calls ?t = render_calls s"
    by simp_all
  have f: "fold surface_dispose_all_body [0..<Suc n] s = surface_dispose_all_body n ?t" by simp
  have nl: "n < length (ttfSurfaceCache ?t)" using Suc.prems IH(2) by simp
  have slots: "\<forall>i<Suc n. s_surface (ttfSurfaceCache (ttf_surface_cache_dispose n ?t) ! i) = nullptr"
  proof (intro allI impI)
    fix i assume "i < Suc n"
    then consider "i = n" | "i < n" by linarith
    then show "s_surface (ttfSurfaceCache (ttf_surface_cache_dispose n ?t) ! i) = nullptr"
    proof cases
      case 1 then show ?thesis using nl by (simp add: surface_dispose_slot)
    next
      case 2 then show ?thesis using IH(3) by (simp add: surface_dispose_other)
    qed
  qed
  have rest: "\<forall>i\<ge>Suc n. ttfSurfaceCache (ttf_surface_cache_dispose n ?t) ! i = ttfSurfaceCache s ! i"
    using IH(4) by (simp add: surface_dispose_other)
  show ?case
    unfolding f using IH slots rest by simp
qed


lemma getwidth_dispose_slot:
  "i < length (ttfGetWidthCache s) \<Longrightarrow>
     w_text (ttfGetWidthCache (ttf_getwidth_cache_dispose i s) ! i) = None"
  by (simp add: getwidth_dispose_cache)

lemma getwidth_dispose_other:
  "k \<noteq> i \<Longrightarrow> ttfGetWidthCache (ttf_getwidth_cache_dispose i s) ! k = ttfGetWidthCache s ! k"
  by (simp add: getwidth_dispose_cache)

lemma getwidth_dispose_loop:
  "n \<le> length (ttfGetWidthCache s) \<Longrightarrow>
   ttfGetWidthCacheCount (fold getwidth_dispose_all_body [0..<n] s) = ttfGetWidthCacheCount s - of_nat n
   \<and> length (ttfGetWidthCache (fold getwidth_dispose_all_body [0..<n] s)) = length (ttfGetWidthCache s)
   \<and> (\<forall>i<n. w_text (ttfGetWidthCache (fold getwidth_dispose_all_body [0..<n] s) ! i) = None)
   \<and> (\<forall>i\<ge>n. ttfGetWidthCache (fold getwidth_dispose_all_body [0..<n] s) ! i = ttfGetWidthCache s ! i)
   \<and> ttfGetWidthCacheHitCount (fold getwidth_dispose_all_body [0..<n] s) = ttfGetWidthCacheHitCount s
   \<and> ttfGetWidthCacheMissCount (fold getwidth_dispose_all_body [0..<n] s) = ttfGetWidthCacheMissCount s
   \<and> ttfSurfaceCache (fold getwidth_dispose_all_body [0..<n] s) = ttfSurfaceCache s
   \<and> ttfSurfaceCacheCount (fold getwidth_dispose_all_body [0..<n] s) = ttfSurfaceCacheCount s
   \<and> ttfSurfaceCacheHitCount (fold getwidth_dispose_all_body [0..<n] s) = ttfSurfaceCacheHitCount s
   \<and> ttfSurfaceCacheMissCount (fold getwidth_dispose_all_body [0..<n] s) = ttfSurfaceCacheMissCount s
   \<and> gCurrentDrawCount (fold getwidth_dispose_all_body [0..<n] s) = gCurrentDrawCount s
   \<and> fontHinting (fold getwidth_dispose_all_body [0..<n] s) = fontHinting s
   \<and> render_calls (fold getwidth_dispose_all_body [0..<n] s) = render_calls s"
proof (induction n)
  case 0
  then show ?case by simp
next
  case (Suc n)
  let ?t = "fold getwidth_dispose_all_body [0..<n] s"
  from Suc have IH:
    "ttfGetWidthCacheCount ?t = ttfGetWidthCacheCount s - of_nat n"
    "length (ttfGetWidthCache ?t) = length (ttfGetWidthCache s)"
    "\<forall>i<n. w_text (ttfGetWidthCache ?t ! i) = None"
    "\<forall>i\<ge>n. ttfGetWidthCache ?t ! i = ttfGetWidthCache s ! i"
    "ttfGetWidthCacheHitCount ?t = ttfGetWidthCacheHitCount s"
    "ttfGetWidthCacheMissCount ?t = ttfGetWidthCacheMissCount s"
    "ttfSurfaceCache ?t = ttfSurfaceCache s"
    "ttfSurfaceCacheCount ?t = ttfSurfaceCacheCount s"
    "ttfSurfaceCacheHitCount ?t = ttfSurfaceCacheHitCount s"
    "ttfSurfaceCacheMissCount ?t = ttfSurfaceCacheMissCount s"
    "gCurrentDrawCount ?t = gCurrentDrawCount s"
    "fontHinting ?t = fontHinting s"
    "render_calls ?t = render_calls s"
    by simp_all
  have f: "fold getwidth_dispose_all_body [0..<Suc n] s = getwidth_dispose_all_body n ?t" by simp
  have nl: "n < length (ttfGetWidthCache ?t)" using Suc.prems IH(2) by simp
  have slots: "\<forall>i<Suc n. w_text (ttfGetWidthCache (ttf_getwidth_cache_dispose n ?t) ! i) = None"
  proof (intro allI impI)
    fix i assume "i < Suc n"
    then consider "i = n" | "i < n" by linarith
    then show "w_text (ttfGetWidthCache (ttf_getwidth_cache_dispose n ?t) ! i) = None"
    proof cases
      case 1 then show ?thesis using nl by (simp add: getwidth_dispose_slot)
    next
      case 2 then show ?thesis using IH(3) by (simp add: getwidth_dispose_other)
    qed
  qed
  have rest: "\<forall>i\<ge>Suc n. ttfGetWidthCache (ttf_getwidth_cache_dispose n ?t) ! i = ttfGetWidthCache s ! i"
    using IH(4) by (simp add: getwidth_dispose_other)
  show ?case
    unfolding f using IH slots rest by simp
qed


lemma surface_dispose_all_effect:
  assumes "tables_sized s"
  shows "ttfSurfaceCacheCount (ttf_surface_cache_dispose_all s) = ttfSurfaceCacheCount s - 256"
    and "length (ttfSurfaceCache (ttf_surface_cache_dispose_all s)) = TTF_SURFACE_CACHE_SIZE"
    and "list_all (\<lambda>e. s_surface e = nullptr) (ttfSurfaceCache (ttf_surface_cache_dispose_all s))"
    and "ttfSurfaceCacheHitCount (ttf_surface_cache_dispose_all s) = ttfSurfaceCacheHitCount s"
    and "ttfSurfaceCacheMissCount (ttf_surface_cache_dispose_all s) = ttfSurfaceCacheMissCount s"
    and "ttfGetWidthCache (ttf_surface_cache_dispose_all s) = ttfGetWidthCache s"
    and "ttfGetWidthCacheCount (ttf_surface_cache_dispose_all s) = ttfGetWidthCacheCount s"
    and "ttfGetWidthCacheHitCount (ttf_surface_cache_dispose_all s) = ttfGetWidthCacheHitCount s"
    and "ttfGetWidthCacheMissCount (ttf_surface_cache_dispose_all s) = ttfGetWidthCacheMissCount s"
    and "gCurrentDrawCount (ttf_surface_cache_dispose_all s) = gCurrentDrawCount s"
    and "fontHinting (ttf_surface_cache_dispose_all s) = fontHinting s"
    and "render_calls (ttf_surface_cache_dispose_all s) = render_calls s"
proof -
  from assms have l: "TTF_SURFACE_CACHE_SIZE \<le> length (ttfSurfaceCache s)"
    by (simp add: tables_sized_def)
  note L = surface_dispose_loop [OF l, folded ttf_surface_cache_dispose_all_def]
  from L show "ttfSurfaceCacheCount (ttf_surface_cache_dispose_all s) = ttfSurfaceCacheCount s - 256"
    by (simp add: TTF_SURFACE_CACHE_SIZE_def)
  from L assms show len: "length (ttfSurfaceCache (ttf_surface_cache_dispose_all s)) = TTF_SURFACE_CACHE_SIZE"
    by (simp add: tables_sized_def)
  from L len show "list_all (\<lambda>e. s_surface e = nullptr) (ttfSurfaceCache (ttf_surface_cache_dispose_all s))"
    by (simp add: list_all_length)
  from L show "ttfSurfaceCacheHitCount (ttf_surface_cache_dispose_all s) = ttfSurfaceCacheHitCount s"
    and "ttfSurfaceCacheMissCount (ttf_surface_cache_dispose_all s) = ttfSurfaceCacheMissCount s"
    and "ttfGetWidthCache (ttf_surface_cache_dispose_all s) = ttfGetWidthCache s"
    and "ttfGetWidthCacheCount (ttf_surface_cache_dispose_all s) = ttfGetWidthCacheCount s"
    and "ttfGetWidthCacheHitCount (ttf_surface_cache_dispose_all s) = ttfGetWidthCacheHitCount s"
    and "ttfGetWidthCacheMissCount (ttf_surface_cache_dispose_all s) = ttfGetWidthCacheMissCount s"
    and "gCurrentDrawCount (ttf_surface_cache_dispose_all s) = gCurrentDrawCount s"
    and "fontHinting (ttf_surface_cache_dispose_all s) = fontHinting s"
    and "render_calls (ttf_surface_cache_dispose_all s) = render_calls s"
    by simp_all
qed

lemma getwidth_dispose_all_effect:
  assumes "tables_sized s"
  shows "ttfGetWidthCacheCount (ttf_getwidth_cache_dispose_all s) = ttfGetWidthCacheCount s - 1024"
    and "length (ttfGetWidthCache (ttf_getwidth_cache_dispose_all s)) = TTF_GETWIDTH_CACHE_SIZE"
    and "list_all (\<lambda>e. w_text e = None) (ttfGetWidthCache (ttf_getwidth_cache_dispose_all s))"
    and "ttfSurfaceCache (ttf_getwidth_cache_dispose_all s) = ttfSurfaceCache s"
    and "ttfSurfaceCacheCount (ttf_getwidth_cache_dispose_all s) = ttfSurfaceCacheCount s"
proof -
  from assms have l: "TTF_GETWIDTH_CACHE_SIZE \<le> length (ttfGetWidthCache s)"
    by (simp add: tables_sized_def)
  note L = getwidth_dispose_loop [OF l, folded ttf_getwidth_cache_dispose_all_def]
  from L show "ttfGetWidthCacheCount (ttf_getwidth_cache_dispose_all s) = ttfGetWidthCacheCount s - 1024"
    by (simp add: TTF_GETWIDTH_CACHE_SIZE_def)
  from L assms show len: "length (ttfGetWidthCache (ttf_getwidth_cache_dispose_all s)) = TTF_GETWIDTH_CACHE_SIZE"
    by (simp add: tables_sized_def)
  from L len show "list_all (\<lambda>e. w_text e = None) (ttfGetWidthCache (ttf_getwidth_cache_dispose_all s))"
    by (simp add: list_all_length)
  from L show "ttfSurfaceCache (ttf_getwidth_cache_dispose_all s) = ttfSurfaceCache s"
    and "ttfSurfaceCacheCount (ttf_getwidth_cache_dispose_all s) = ttfSurfaceCacheCount s"
    by simp_all
qed

text \<open>
  Claim C7, evaluated at the state with one live entry in each table (both counters are 1).
  \<^verbatim>\<open>DisposeAll\<close> leaves every slot of its table empty, but the counter is not 0
  afterwards: the loop decrements it once for every slot, occupied or not, so it ends at
  \<open>1 - 256 = -255\<close> for the surface table and at \<open>1 - 1024 = -1023\<close> for the width
  table.
\<close>

theorem dispose_all_counter_at_cached_state:
  "sint (ttfSurfaceCacheCount cached_state) = 1
   \<and> sint (ttfSurfaceCacheCount (ttf_surface_cache_dispose_all cached_state)) = - 255
   \<and> list_all (\<lambda>e. s_surface e = nullptr) (ttfSurfaceCache (ttf_surface_cache_dispose_all cached_state))
   \<and> sint (ttfGetWidthCacheCount cached_state) = 1
   \<and> sint (ttfGetWidthCacheCount (ttf_getwidth_cache_dispose_all cached_state)) = - 1023
   \<and> list_all (\<lambda>e. w_text e = None) (ttfGetWidthCache (ttf_getwidth_cache_dispose_all cached_state))"
proof -
  have c: "ttfSurfaceCacheCount cached_state = 1" "ttfGetWidthCacheCount cached_state = 1"
    by (simp_all add: cached_state_eq initial_state_def)
  show ?thesis
    using surface_dispose_all_effect(1,3) [OF cached_state_sized]
      getwidth_dispose_all_effect(1,3) [OF cached_state_sized]
    by (simp add: c)
qed

section \<open>The hinting toggle without a TrueType font\<close>

text \<open>
  Claim C10. When \<^verbatim>\<open>LocalisationService_UseTrueTypeFont()\<close> is false (a sprite font is in
  use), \<^verbatim>\<open>ttf_toggle_hinting\<close> returns at once: the state after it is the state before
  it, so no hinting flag, no slot of either cache and no counter changes, and no call to the
  font engine or to \<^verbatim>\<open>free\<close> is made.
\<close>

theorem toggle_hinting_sprite_font_noop:
  "\<not> UseTrueTypeFont env \<Longrightarrow> ttf_toggle_hinting env s = s"
  by (simp add: ttf_toggle_hinting_def)

theorem toggle_hinting_sprite_font_noop_witness:
  "\<not> UseTrueTypeFont sprite_env \<and> ttf_toggle_hinting sprite_env cached_state = cached_state"
proof -
  have h: "\<not> UseTrueTypeFont sprite_env" by (simp add: sprite_env_def)
  from h toggle_hinting_sprite_font_noop [OF h, of cached_state] show ?thesis by simp
qed

section \<open>A full table of fresh entries\<close>

lemma spec_probe_all_continue:
  "(\<forall>x\<in>set xs. rule x = Rule_continue) \<Longrightarrow> spec_probe rule xs = None"
  by (induction xs) simp_all

lemma probe_loop_continue_steps:
  assumes "\<forall>j<N. rule j = Rule_continue" "home < N"
  shows "k \<le> N \<Longrightarrow> probe_loop N rule 0 home = probe_loop N rule k ((home + k) mod N)"
proof (induction k)
  case 0
  then show ?case using assms by simp
next
  case (Suc k)
  let ?idx = "(home + k) mod N"
  have idx: "?idx < N" using assms(2) by simp
  have "probe_loop N rule k ?idx = probe_loop N rule (k + 1) (if N \<le> ?idx + 1 then 0 else ?idx + 1)"
    using Suc.prems assms(1) idx by (subst probe_loop.simps) simp
  also have "(if N \<le> ?idx + 1 then 0 else ?idx + 1) = (?idx + 1) mod N"
    by (rule next_index [OF idx])
  also have "(?idx + 1) mod N = (home + Suc k) mod N" by (simp add: mod_simps)
  finally show ?case using Suc by simp
qed


lemma surface_probe_exhausted:
  assumes len: "length (ttfSurfaceCache s) = TTF_SURFACE_CACHE_SIZE"
    and all: "list_all (\<lambda>e. s_surface e \<noteq> nullptr \<and> \<not> s_matches e font str
                  \<and> \<not> s_lastUseTick e < gCurrentDrawCount s - 64) (ttfSurfaceCache s)"
  shows "\<forall>j<TTF_SURFACE_CACHE_SIZE.
           surface_slot_rule (ttfSurfaceCache s) (gCurrentDrawCount s) font str j = Rule_continue"
proof (intro allI impI)
  fix j assume "j < TTF_SURFACE_CACHE_SIZE"
  with len all have "s_surface (ttfSurfaceCache s ! j) \<noteq> nullptr"
    "\<not> s_matches (ttfSurfaceCache s ! j) font str"
    "\<not> s_lastUseTick (ttfSurfaceCache s ! j) < gCurrentDrawCount s - 64"
    by (simp_all add: list_all_length)
  then show "surface_slot_rule (ttfSurfaceCache s) (gCurrentDrawCount s) font str j = Rule_continue"
    by (auto simp: surface_slot_rule_def s_matches_def strcmp_eq_def)
qed

lemma getwidth_probe_exhausted:
  assumes len: "length (ttfGetWidthCache s) = TTF_GETWIDTH_CACHE_SIZE"
    and all: "list_all (\<lambda>e. w_text e \<noteq> None \<and> \<not> w_matches e font str
                  \<and> \<not> w_lastUseTick e < gCurrentDrawCount s - 64) (ttfGetWidthCache s)"
  shows "\<forall>j<TTF_GETWIDTH_CACHE_SIZE.
           getwidth_slot_rule (ttfGetWidthCache s) (gCurrentDrawCount s) font str j = Rule_continue"
proof (intro allI impI)
  fix j assume "j < TTF_GETWIDTH_CACHE_SIZE"
  with len all have "w_text (ttfGetWidthCache s ! j) \<noteq> None"
    "\<not> w_matches (ttfGetWidthCache s ! j) font str"
    "\<not> w_lastUseTick (ttfGetWidthCache s ! j) < gCurrentDrawCount s - 64"
    by (simp_all add: list_all_length)
  then show "getwidth_slot_rule (ttfGetWidthCache s) (gCurrentDrawCount s) font str j = Rule_continue"
    by (auto simp: getwidth_slot_rule_def w_matches_def strcmp_eq_def)
qed

lemma surface_lookup_exhausted:
  assumes "\<forall>j<TTF_SURFACE_CACHE_SIZE.
           surface_slot_rule (ttfSurfaceCache s) (gCurrentDrawCount s) font str j = Rule_continue"
  shows "ttf_surface_cache_lookup env font str s = Miss (surface_home_index env font str)"
proof -
  have "spec_probe (surface_slot_rule (ttfSurfaceCache s) (gCurrentDrawCount s) font str)
          (spec_probe_sequence TTF_SURFACE_CACHE_SIZE (surface_home_index env font str)) = None"
    using assms spec_probe_sequence_set by (intro spec_probe_all_continue) blast
  then show ?thesis by (simp add: surface_lookup_spec)
qed

lemma getwidth_lookup_exhausted:
  assumes "\<forall>j<TTF_GETWIDTH_CACHE_SIZE.
           getwidth_slot_rule (ttfGetWidthCache s) (gCurrentDrawCount s) font str j = Rule_continue"
  shows "ttf_getwidth_cache_lookup env font str s = Miss (getwidth_home_index env font str)"
proof -
  have "spec_probe (getwidth_slot_rule (ttfGetWidthCache s) (gCurrentDrawCount s) font str)
          (spec_probe_sequence TTF_GETWIDTH_CACHE_SIZE (getwidth_home_index env font str)) = None"
    using assms spec_probe_sequence_set by (intro spec_probe_all_continue) blast
  then show ?thesis by (simp add: getwidth_lookup_spec)
qed

lemma full_fresh_surface:
  "length (ttfSurfaceCache full_fresh_state) = TTF_SURFACE_CACHE_SIZE"
  "list_all (\<lambda>e. s_surface e \<noteq> nullptr \<and> \<not> s_matches e 0x2000 [72, 105]
                  \<and> \<not> s_lastUseTick e < gCurrentDrawCount full_fresh_state - 64)
     (ttfSurfaceCache full_fresh_state)"
proof -
  show "length (ttfSurfaceCache full_fresh_state) = TTF_SURFACE_CACHE_SIZE"
    by (simp add: full_fresh_state_def)
  have nz: "(of_nat (20480 + 16 * j) :: 64 word) \<noteq> 0" if "j < 256" for j
    using that by (intro of_nat_neq_0) simp_all
  show "list_all (\<lambda>e. s_surface e \<noteq> nullptr \<and> \<not> s_matches e 0x2000 [72, 105]
                  \<and> \<not> s_lastUseTick e < gCurrentDrawCount full_fresh_state - 64)
     (ttfSurfaceCache full_fresh_state)"
    using nz
    by (simp add: full_fresh_state_def list_all_iff initial_state_def s_matches_def nullptr_def
          TTF_SURFACE_CACHE_SIZE_def)
qed

lemma full_fresh_getwidth:
  "length (ttfGetWidthCache full_fresh_state) = TTF_GETWIDTH_CACHE_SIZE"
  "list_all (\<lambda>e. w_text e \<noteq> None \<and> \<not> w_matches e 0x2000 [72, 105]
                  \<and> \<not> w_lastUseTick e < gCurrentDrawCount full_fresh_state - 64)
     (ttfGetWidthCache full_fresh_state)"
  by (simp_all add: full_fresh_state_def list_all_iff initial_state_def w_matches_def)

lemma previous_slot_differs: "(home::nat) < N \<Longrightarrow> 1 < N \<Longrightarrow> (home + N - 1) mod N \<noteq> home"
proof (cases "home = 0")
  case True
  assume "1 < N" with True show ?thesis by simp
next
  case False
  assume h: "home < N"
  from False have "home + N - 1 = (home - 1) + N" by simp
  then have "(home + N - 1) mod N = (home - 1) mod N" by simp
  also have "\<dots> = home - 1" using h by simp
  finally show ?thesis using False by simp
qed

text \<open>
  Claim C6, as amended. When every slot of the table is occupied, fresh and holds another
  key, the loop runs through all \<open>N\<close> iterations (it is at \<open>i = N\<close> with the index it
  started from) and the slot used for the eviction and the insertion is the home slot
  \<open>hash mod N\<close>: the index is advanced after each of the \<open>N\<close> probes and has wrapped
  around to where it started. The last probed slot \<open>(home + N - 1) mod N\<close> is left alone.
\<close>

theorem probe_exhausted_targets_home:
  "(length (ttfSurfaceCache s) = TTF_SURFACE_CACHE_SIZE
    \<and> list_all (\<lambda>e. s_surface e \<noteq> nullptr \<and> \<not> s_matches e font str
                  \<and> \<not> s_lastUseTick e < gCurrentDrawCount s - 64) (ttfSurfaceCache s)
    \<longrightarrow>
      ttf_surface_cache_probe (ttfSurfaceCache s) (gCurrentDrawCount s) font str 0
          (surface_home_index env font str)
        = ttf_surface_cache_probe (ttfSurfaceCache s) (gCurrentDrawCount s) font str
            TTF_SURFACE_CACHE_SIZE (surface_home_index env font str)
      \<and> ttf_surface_cache_lookup env font str s = Miss (surface_home_index env font str)
      \<and> s_surface (ttfSurfaceCache (snd (ttf_surface_cache_get_or_add env font str s))
                     ! surface_home_index env font str)
          = fst (ttf_surface_cache_get_or_add env font str s))
   \<and> (length (ttfGetWidthCache s) = TTF_GETWIDTH_CACHE_SIZE
    \<and> list_all (\<lambda>e. w_text e \<noteq> None \<and> \<not> w_matches e font str
                  \<and> \<not> w_lastUseTick e < gCurrentDrawCount s - 64) (ttfGetWidthCache s)
    \<longrightarrow>
      ttf_getwidth_cache_probe (ttfGetWidthCache s) (gCurrentDrawCount s) font str 0
          (getwidth_home_index env font str)
        = ttf_getwidth_cache_probe (ttfGetWidthCache s) (gCurrentDrawCount s) font str
            TTF_GETWIDTH_CACHE_SIZE (getwidth_home_index env font str)
      \<and> ttf_getwidth_cache_lookup env font str s = Miss (getwidth_home_index env font str)
      \<and> ttfGetWidthCache (snd (ttf_getwidth_cache_get_or_add env font str s))
            ! getwidth_home_index env font str
          = \<lparr>w_width = fst (ttf_getwidth_cache_get_or_add env font str s), w_font = font,
             w_text = Some (c_str str), w_lastUseTick = gCurrentDrawCount s\<rparr>)"
proof (intro conjI impI)
  assume a: "length (ttfSurfaceCache s) = TTF_SURFACE_CACHE_SIZE
    \<and> list_all (\<lambda>e. s_surface e \<noteq> nullptr \<and> \<not> s_matches e font str
                  \<and> \<not> s_lastUseTick e < gCurrentDrawCount s - 64) (ttfSurfaceCache s)"
  then have c: "\<forall>j<TTF_SURFACE_CACHE_SIZE.
           surface_slot_rule (ttfSurfaceCache s) (gCurrentDrawCount s) font str j = Rule_continue"
    using surface_probe_exhausted by blast
  have h: "surface_home_index env font str < TTF_SURFACE_CACHE_SIZE"
    by (rule surface_home_index_less)
  show "ttf_surface_cache_probe (ttfSurfaceCache s) (gCurrentDrawCount s) font str 0
          (surface_home_index env font str)
        = ttf_surface_cache_probe (ttfSurfaceCache s) (gCurrentDrawCount s) font str
            TTF_SURFACE_CACHE_SIZE (surface_home_index env font str)"
    using probe_loop_continue_steps [OF c h, of TTF_SURFACE_CACHE_SIZE] h
    by (simp add: surface_probe_loop)
  show lk: "ttf_surface_cache_lookup env font str s = Miss (surface_home_index env font str)"
    by (rule surface_lookup_exhausted [OF c])
  show "s_surface (ttfSurfaceCache (snd (ttf_surface_cache_get_or_add env font str s))
                     ! surface_home_index env font str)
          = fst (ttf_surface_cache_get_or_add env font str s)"
    using a h by (simp add: surface_miss_effect [OF lk] Let_def surface_dispose_slot)
next
  assume a: "length (ttfGetWidthCache s) = TTF_GETWIDTH_CACHE_SIZE
    \<and> list_all (\<lambda>e. w_text e \<noteq> None \<and> \<not> w_matches e font str
                  \<and> \<not> w_lastUseTick e < gCurrentDrawCount s - 64) (ttfGetWidthCache s)"
  then have c: "\<forall>j<TTF_GETWIDTH_CACHE_SIZE.
           getwidth_slot_rule (ttfGetWidthCache s) (gCurrentDrawCount s) font str j = Rule_continue"
    using getwidth_probe_exhausted by blast
  have h: "getwidth_home_index env font str < TTF_GETWIDTH_CACHE_SIZE"
    by (rule getwidth_home_index_less)
  show "ttf_getwidth_cache_probe (ttfGetWidthCache s) (gCurrentDrawCount s) font str 0
          (getwidth_home_index env font str)
        = ttf_getwidth_cache_probe (ttfGetWidthCache s) (gCurrentDrawCount s) font str
            TTF_GETWIDTH_CACHE_SIZE (getwidth_home_index env font str)"
    using probe_loop_continue_steps [OF c h, of TTF_GETWIDTH_CACHE_SIZE] h
    by (simp add: getwidth_probe_loop)
  show lk: "ttf_getwidth_cache_lookup env font str s = Miss (getwidth_home_index env font str)"
    by (rule getwidth_lookup_exhausted [OF c])
  show "ttfGetWidthCache (snd (ttf_getwidth_cache_get_or_add env font str s))
            ! getwidth_home_index env font str
          = \<lparr>w_width = fst (ttf_getwidth_cache_get_or_add env font str s), w_font = font,
             w_text = Some (c_str str), w_lastUseTick = gCurrentDrawCount s\<rparr>"
    using a h by (simp add: getwidth_miss_effect [OF lk] Let_def)
qed

theorem probe_exhausted_targets_home_witness:
  "length (ttfSurfaceCache full_fresh_state) = TTF_SURFACE_CACHE_SIZE
   \<and> list_all (\<lambda>e. s_surface e \<noteq> nullptr \<and> \<not> s_matches e 0x2000 [72, 105]
                  \<and> \<not> s_lastUseTick e < gCurrentDrawCount full_fresh_state - 64)
        (ttfSurfaceCache full_fresh_state)
   \<and> ttf_surface_cache_lookup working_env 0x2000 [72, 105] full_fresh_state
       = Miss (surface_home_index working_env 0x2000 [72, 105])
   \<and> length (ttfGetWidthCache full_fresh_state) = TTF_GETWIDTH_CACHE_SIZE
   \<and> list_all (\<lambda>e. w_text e \<noteq> None \<and> \<not> w_matches e 0x2000 [72, 105]
                  \<and> \<not> w_lastUseTick e < gCurrentDrawCount full_fresh_state - 64)
        (ttfGetWidthCache full_fresh_state)
   \<and> ttf_getwidth_cache_lookup working_env 0x2000 [72, 105] full_fresh_state
       = Miss (getwidth_home_index working_env 0x2000 [72, 105])"
  using probe_exhausted_targets_home [of full_fresh_state "0x2000" "[72, 105]" working_env]
    full_fresh_surface full_fresh_getwidth
  by blast

text \<open>
  The claim as stated names the last probed slot as the target. In the full table of fresh
  entries the lookup of (0x2000, "Hi") ends at its home slot, which is not
  \<open>(home + N - 1) mod N\<close>.
\<close>

theorem probe_exhausted_last_slot_counterexample:
  "length (ttfSurfaceCache full_fresh_state) = TTF_SURFACE_CACHE_SIZE
   \<and> list_all (\<lambda>e. s_surface e \<noteq> nullptr \<and> \<not> s_matches e 0x2000 [72, 105]
                  \<and> \<not> s_lastUseTick e < gCurrentDrawCount full_fresh_state - 64)
        (ttfSurfaceCache full_fresh_state)
   \<and> ttf_surface_cache_lookup working_env 0x2000 [72, 105] full_fresh_state
       = Miss (surface_home_index working_env 0x2000 [72, 105])
   \<and> ttf_surface_cache_lookup working_env 0x2000 [72, 105] full_fresh_state
       \<noteq> Miss ((surface_home_index working_env 0x2000 [72, 105] + TTF_SURFACE_CACHE_SIZE - 1)
                 mod TTF_SURFACE_CACHE_SIZE)"
proof -
  let ?home = "surface_home_index working_env 0x2000 [72, 105]"
  have lk: "ttf_surface_cache_lookup working_env 0x2000 [72, 105] full_fresh_state = Miss ?home"
    by (rule surface_lookup_exhausted [OF surface_probe_exhausted [OF full_fresh_surface]])
  have "(?home + TTF_SURFACE_CACHE_SIZE - 1) mod TTF_SURFACE_CACHE_SIZE \<noteq> ?home"
    by (rule previous_slot_differs [OF surface_home_index_less])
       (simp add: TTF_SURFACE_CACHE_SIZE_def)
  with lk full_fresh_surface show ?thesis by simp
qed

section \<open>The staleness threshold in the first 64 ticks\<close>

lemma threshold_wraps:
  assumes "(tick::uint32_t) < 64"
  shows "unat (tick - 64) = 2 ^ 32 - 64 + unat tick"
proof -
  from assms have "unat tick < 64" by (simp add: word_less_nat_alt)
  then show ?thesis by (simp add: unat_sub_if_size word_size)
qed

lemma home_empty_text:
  "surface_home_index working_env 0x1000 [] = 170"
  "surface_home_index working_env 0x2000 [] = 170"
  "getwidth_home_index working_env 0x1000 [] = 682"
  "getwidth_home_index working_env 0x2000 [] = 682"
  by (simp_all add: surface_home_index_def getwidth_home_index_def ttf_surface_cache_hash_def
        hash_seed_def TTF_SURFACE_CACHE_SIZE_def TTF_GETWIDTH_CACHE_SIZE_def)

lemma spec_probe_second:
  assumes "home < N" "1 < N" "rule home = Rule_continue"
    "rule ((home + 1) mod N) \<noteq> Rule_continue"
  shows "spec_probe rule (spec_probe_sequence N home)
     = Some (if rule ((home + 1) mod N) = Rule_hit then Hit ((home + 1) mod N)
             else Miss ((home + 1) mod N))"
proof -
  from assms(2) have "[1..<N] = 1 # [2..<N]" by (simp add: upt_conv_Cons numeral_2_eq_2)
  then have "spec_probe_sequence N home
      = home # (home + 1) mod N # map (\<lambda>k. (home + k) mod N) [2..<N]"
    by (simp add: spec_probe_sequence_Cons [OF assms(1)])
  then show ?thesis using assms(3,4) by (cases "rule ((home + 1) mod N)") simp_all
qed


lemma initial_lookups_eq:
  "snd (ttf_getwidth_cache_get_or_add working_env font str
       (snd (ttf_surface_cache_get_or_add working_env font str (initial_state tick)))) =
     (initial_state tick)
       \<lparr>ttfSurfaceCache := (replicate TTF_SURFACE_CACHE_SIZE empty_surface_entry)
          [surface_home_index working_env font str :=
             \<lparr>s_surface = 0x5000, s_font = font, s_text = Some (c_str str), s_lastUseTick = tick\<rparr>],
        ttfSurfaceCacheCount := 1, ttfSurfaceCacheMissCount := 1,
        ttfGetWidthCache := (replicate TTF_GETWIDTH_CACHE_SIZE empty_getwidth_entry)
          [getwidth_home_index working_env font str :=
             \<lparr>w_width = 7 * of_nat (length (c_str str)), w_font = font,
              w_text = Some (c_str str), w_lastUseTick = tick\<rparr>],
        ttfGetWidthCacheCount := 1, ttfGetWidthCacheMissCount := 1,
        calls := [Call_TTF_RenderUTF8_Solid font str, Call_TTF_SizeUTF8 font str]\<rparr>"
proof -
  let ?s0 = "initial_state tick"
  have l1: "ttf_surface_cache_lookup working_env font str ?s0
      = Miss (surface_home_index working_env font str)"
    by (rule initial_surface_lookup)
  have d1: "ttf_surface_cache_dispose (surface_home_index working_env font str) ?s0 = ?s0"
    using surface_home_index_less [of working_env font str]
    by (simp add: ttf_surface_cache_dispose_def initial_state_def empty_surface_entry_def)
  let ?s1 = "snd (ttf_surface_cache_get_or_add working_env font str ?s0)"
  have s1: "?s1 = ?s0
       \<lparr>ttfSurfaceCache := (replicate TTF_SURFACE_CACHE_SIZE empty_surface_entry)
          [surface_home_index working_env font str :=
             \<lparr>s_surface = 0x5000, s_font = font, s_text = Some (c_str str), s_lastUseTick = tick\<rparr>],
        ttfSurfaceCacheCount := 1, ttfSurfaceCacheMissCount := 1,
        calls := [Call_TTF_RenderUTF8_Solid font str]\<rparr>"
    unfolding surface_miss_effect [OF l1] d1
    by (simp add: ttf_render_def initial_state_def working_env_def nullptr_def Let_def)
  have l2: "ttf_getwidth_cache_lookup working_env font str ?s1
      = Miss (getwidth_home_index working_env font str)"
    using getwidth_home_index_less [of working_env font str]
    unfolding s1
    by (subst getwidth_lookup_home)
       (simp_all add: getwidth_slot_rule_def initial_state_def empty_getwidth_entry_def)
  have d2: "ttf_getwidth_cache_dispose (getwidth_home_index working_env font str) ?s1 = ?s1"
    using getwidth_home_index_less [of working_env font str]
    unfolding s1
    by (simp add: ttf_getwidth_cache_dispose_def initial_state_def empty_getwidth_entry_def)
  show ?thesis
    unfolding getwidth_miss_effect [OF l2] d2
    unfolding s1
    by (simp add: ttf_get_size_def initial_state_def working_env_def Let_def)
qed

lemma wrapped_state_eq:
  "wrapped_state =
     (initial_state 10)
       \<lparr>ttfSurfaceCache := (replicate TTF_SURFACE_CACHE_SIZE empty_surface_entry)
          [170 := \<lparr>s_surface = 0x5000, s_font = 0x1000, s_text = Some [], s_lastUseTick = 0xFFFFFFF6\<rparr>],
        ttfSurfaceCacheCount := 1, ttfSurfaceCacheMissCount := 1,
        ttfGetWidthCache := (replicate TTF_GETWIDTH_CACHE_SIZE empty_getwidth_entry)
          [682 := \<lparr>w_width = 0, w_font = 0x1000, w_text = Some [], w_lastUseTick = 0xFFFFFFF6\<rparr>],
        ttfGetWidthCacheCount := 1, ttfGetWidthCacheMissCount := 1,
        calls := [Call_TTF_RenderUTF8_Solid 0x1000 [], Call_TTF_SizeUTF8 0x1000 []]\<rparr>"
  unfolding wrapped_state_def initial_lookups_eq home_empty_text
  by (simp add: initial_state_def)

lemma wrapped_state_sized: "tables_sized wrapped_state"
  by (simp add: wrapped_state_eq tables_sized_def initial_state_def)

lemma wrapped_surface_rules:
  "surface_slot_rule (ttfSurfaceCache wrapped_state) (gCurrentDrawCount wrapped_state) 0x2000 [] 170
     = Rule_continue"
  "surface_slot_rule (ttfSurfaceCache wrapped_state) (gCurrentDrawCount wrapped_state) 0x2000 [] 171
     = Rule_empty"
  by (simp_all add: wrapped_state_eq surface_slot_rule_def initial_state_def nullptr_def
        TTF_SURFACE_CACHE_SIZE_def empty_surface_entry_def)

lemma wrapped_surface_lookup:
  "ttf_surface_cache_lookup working_env 0x2000 [] wrapped_state = Miss 171"
proof -
  have "spec_probe (surface_slot_rule (ttfSurfaceCache wrapped_state)
           (gCurrentDrawCount wrapped_state) 0x2000 [])
          (spec_probe_sequence TTF_SURFACE_CACHE_SIZE 170) = Some (Miss 171)"
    by (subst spec_probe_second)
       (simp_all add: wrapped_surface_rules TTF_SURFACE_CACHE_SIZE_def)
  then show ?thesis by (simp add: surface_lookup_spec home_empty_text)
qed


lemma early_state_eq:
  "early_state =
     (initial_state 10)
       \<lparr>ttfSurfaceCache := (replicate TTF_SURFACE_CACHE_SIZE empty_surface_entry)
          [170 := \<lparr>s_surface = 0x5000, s_font = 0x1000, s_text = Some [], s_lastUseTick = 5\<rparr>],
        ttfSurfaceCacheCount := 1, ttfSurfaceCacheMissCount := 1,
        ttfGetWidthCache := (replicate TTF_GETWIDTH_CACHE_SIZE empty_getwidth_entry)
          [682 := \<lparr>w_width = 0, w_font = 0x1000, w_text = Some [], w_lastUseTick = 5\<rparr>],
        ttfGetWidthCacheCount := 1, ttfGetWidthCacheMissCount := 1,
        calls := [Call_TTF_RenderUTF8_Solid 0x1000 [], Call_TTF_SizeUTF8 0x1000 []]\<rparr>"
  unfolding early_state_def initial_lookups_eq home_empty_text
  by (simp add: initial_state_def)

lemma stale_below_wrapped_threshold:
  assumes "(tick::uint32_t) < 64" "unat (last_use::uint32_t) < 2 ^ 32 - 64 + unat tick"
  shows "last_use < tick - 64"
  using assms by (simp add: word_less_nat_alt threshold_wraps)

text \<open>
  Claim C9, as amended. The staleness test subtracts 64 from the current tick in unsigned
  32-bit arithmetic. While the tick is below 64 the threshold is \<open>2^32 - 64 + tick\<close>, and
  every occupied, non-matching slot whose last-use tick is below that threshold (every slot
  stamped at a tick of the current run up to now, whatever its age) is classified as stale;
  when the home slot is such a slot, it is the eviction target. A slot stamped in the last
  64 ticks before the counter wrapped around is at or above the threshold and stays fresh.
\<close>

theorem early_tick_threshold_wraps:
  "gCurrentDrawCount s < 64 \<longrightarrow>
     unat (gCurrentDrawCount s - 64) = 2 ^ 32 - 64 + unat (gCurrentDrawCount s)
     \<and> (\<forall>j. s_surface (ttfSurfaceCache s ! j) \<noteq> nullptr
             \<and> \<not> s_matches (ttfSurfaceCache s ! j) font str
             \<and> unat (s_lastUseTick (ttfSurfaceCache s ! j))
                 < 2 ^ 32 - 64 + unat (gCurrentDrawCount s)
          \<longrightarrow> s_lastUseTick (ttfSurfaceCache s ! j) < gCurrentDrawCount s - 64
              \<and> surface_slot_rule (ttfSurfaceCache s) (gCurrentDrawCount s) font str j = Rule_stale
              \<and> (j = surface_home_index env font str
                   \<longrightarrow> ttf_surface_cache_lookup env font str s = Miss j))
     \<and> (\<forall>j. w_text (ttfGetWidthCache s ! j) \<noteq> None
             \<and> \<not> w_matches (ttfGetWidthCache s ! j) font str
             \<and> unat (w_lastUseTick (ttfGetWidthCache s ! j))
                 < 2 ^ 32 - 64 + unat (gCurrentDrawCount s)
          \<longrightarrow> w_lastUseTick (ttfGetWidthCache s ! j) < gCurrentDrawCount s - 64
              \<and> getwidth_slot_rule (ttfGetWidthCache s) (gCurrentDrawCount s) font str j = Rule_stale
              \<and> (j = getwidth_home_index env font str
                   \<longrightarrow> ttf_getwidth_cache_lookup env font str s = Miss j))"
proof (intro impI conjI allI)
  assume t: "gCurrentDrawCount s < 64"
  then show "unat (gCurrentDrawCount s - 64) = 2 ^ 32 - 64 + unat (gCurrentDrawCount s)"
    by (rule threshold_wraps)
next
  fix j
  assume t: "gCurrentDrawCount s < 64"
    and e: "s_surface (ttfSurfaceCache s ! j) \<noteq> nullptr
             \<and> \<not> s_matches (ttfSurfaceCache s ! j) font str
             \<and> unat (s_lastUseTick (ttfSurfaceCache s ! j))
                 < 2 ^ 32 - 64 + unat (gCurrentDrawCount s)"
  from t e show st: "s_lastUseTick (ttfSurfaceCache s ! j) < gCurrentDrawCount s - 64"
    using stale_below_wrapped_threshold by blast
  with e show r: "surface_slot_rule (ttfSurfaceCache s) (gCurrentDrawCount s) font str j = Rule_stale"
    by (auto simp: surface_slot_rule_def s_matches_def strcmp_eq_def)
  assume "j = surface_home_index env font str"
  with r show "ttf_surface_cache_lookup env font str s = Miss j"
    by (simp add: surface_lookup_home)
next
  fix j
  assume t: "gCurrentDrawCount s < 64"
    and e: "w_text (ttfGetWidthCache s ! j) \<noteq> None
             \<and> \<not> w_matches (ttfGetWidthCache s ! j) font str
             \<and> unat (w_lastUseTick (ttfGetWidthCache s ! j))
                 < 2 ^ 32 - 64 + unat (gCurrentDrawCount s)"
  from t e show st: "w_lastUseTick (ttfGetWidthCache s ! j) < gCurrentDrawCount s - 64"
    using stale_below_wrapped_threshold by blast
  with e show r: "getwidth_slot_rule (ttfGetWidthCache s) (gCurrentDrawCount s) font str j = Rule_stale"
    by (auto simp: getwidth_slot_rule_def w_matches_def strcmp_eq_def)
  assume "j = getwidth_home_index env font str"
  with r show "ttf_getwidth_cache_lookup env font str s = Miss j"
    by (simp add: getwidth_lookup_home)
qed

theorem early_tick_threshold_wraps_witness:
  "gCurrentDrawCount early_state < 64
   \<and> s_surface (ttfSurfaceCache early_state ! 170) \<noteq> nullptr
   \<and> \<not> s_matches (ttfSurfaceCache early_state ! 170) 0x2000 []
   \<and> unat (s_lastUseTick (ttfSurfaceCache early_state ! 170))
       < 2 ^ 32 - 64 + unat (gCurrentDrawCount early_state)
   \<and> 170 = surface_home_index working_env 0x2000 []
   \<and> ttf_surface_cache_lookup working_env 0x2000 [] early_state = Miss 170
   \<and> w_text (ttfGetWidthCache early_state ! 682) \<noteq> None
   \<and> \<not> w_matches (ttfGetWidthCache early_state ! 682) 0x2000 []
   \<and> unat (w_lastUseTick (ttfGetWidthCache early_state ! 682))
       < 2 ^ 32 - 64 + unat (gCurrentDrawCount early_state)
   \<and> 682 = getwidth_home_index working_env 0x2000 []
   \<and> ttf_getwidth_cache_lookup working_env 0x2000 [] early_state = Miss 682"
proof -
  have t: "gCurrentDrawCount early_state < 64"
    by (simp add: early_state_eq initial_state_def)
  have a: "s_surface (ttfSurfaceCache early_state ! 170) \<noteq> nullptr
     \<and> \<not> s_matches (ttfSurfaceCache early_state ! 170) 0x2000 []
     \<and> unat (s_lastUseTick (ttfSurfaceCache early_state ! 170))
         < 2 ^ 32 - 64 + unat (gCurrentDrawCount early_state)"
    by (simp add: early_state_eq initial_state_def nullptr_def s_matches_def
          TTF_SURFACE_CACHE_SIZE_def)
  have b: "w_text (ttfGetWidthCache early_state ! 682) \<noteq> None
     \<and> \<not> w_matches (ttfGetWidthCache early_state ! 682) 0x2000 []
     \<and> unat (w_lastUseTick (ttfGetWidthCache early_state ! 682))
         < 2 ^ 32 - 64 + unat (gCurrentDrawCount early_state)"
    by (simp add: early_state_eq initial_state_def w_matches_def TTF_GETWIDTH_CACHE_SIZE_def)
  note T = early_tick_threshold_wraps [of early_state "0x2000" "[]" working_env, rule_format, OF t]
  from T a have "ttf_surface_cache_lookup working_env 0x2000 [] early_state = Miss 170"
    using home_empty_text(2) by metis
  moreover from T b have "ttf_getwidth_cache_lookup working_env 0x2000 [] early_state = Miss 682"
    using home_empty_text(4) by metis
  ultimately show ?thesis using t a b home_empty_text by simp
qed

text \<open>
  The claim as stated covers every state with a tick below 64 and every occupied,
  non-matching slot. In the state where the draw counter has wrapped around, the tick is 10,
  the home slot 170 of the key (0x2000, "") holds another key stamped twenty ticks ago at
  \<^verbatim>\<open>0xFFFFFFF6\<close>, the slot is not stale, and the lookup passes over it to slot 171.
\<close>

theorem early_tick_fresh_slot_counterexample:
  "gCurrentDrawCount wrapped_state < 64
   \<and> surface_home_index working_env 0x2000 [] = 170
   \<and> s_surface (ttfSurfaceCache wrapped_state ! 170) \<noteq> nullptr
   \<and> \<not> s_matches (ttfSurfaceCache wrapped_state ! 170) 0x2000 []
   \<and> \<not> s_lastUseTick (ttfSurfaceCache wrapped_state ! 170) < gCurrentDrawCount wrapped_state - 64
   \<and> ttf_surface_cache_lookup working_env 0x2000 [] wrapped_state = Miss 171"
  using wrapped_surface_lookup home_empty_text(2)
  by (simp add: wrapped_state_eq initial_state_def nullptr_def s_matches_def
        TTF_SURFACE_CACHE_SIZE_def)

section \<open>The probe loops against the contract of the specification\<close>


















lemma early_state_sized: "tables_sized early_state"
  by (simp add: early_state_eq tables_sized_def initial_state_def)




section \<open>A first lookup and the lookup that follows it\<close>

lemma render_calls_update [simp]:
  "render_calls (s\<lparr>ttfSurfaceCache := a\<rparr>) = render_calls s"
  "render_calls (s\<lparr>ttfSurfaceCacheCount := b\<rparr>) = render_calls s"
  "render_calls (s\<lparr>ttfSurfaceCacheHitCount := b\<rparr>) = render_calls s"
  "render_calls (s\<lparr>ttfSurfaceCacheMissCount := b\<rparr>) = render_calls s"
  "render_calls (s\<lparr>ttfGetWidthCache := c\<rparr>) = render_calls s"
  "render_calls (s\<lparr>ttfGetWidthCacheCount := b\<rparr>) = render_calls s"
  "render_calls (s\<lparr>ttfGetWidthCacheHitCount := b\<rparr>) = render_calls s"
  "render_calls (s\<lparr>ttfGetWidthCacheMissCount := b\<rparr>) = render_calls s"
  "render_calls (s\<lparr>gCurrentDrawCount := b\<rparr>) = render_calls s"
  "render_calls (s\<lparr>fontHinting := h\<rparr>) = render_calls s"
  by (simp_all add: render_calls_def)

lemma c_str_idem [simp]: "c_str (c_str t) = c_str t"
  by (induction t) auto

lemma hash_c_str_eq:
  "c_str a = c_str b \<Longrightarrow> ttf_surface_cache_hash sc font a = ttf_surface_cache_hash sc font b"
  unfolding ttf_surface_cache_hash_def
  using hash_loop_c_str [of sc "hash_seed font" a] hash_loop_c_str [of sc "hash_seed font" b]
  by simp

lemma surface_home_index_c_str:
  "c_str a = c_str b \<Longrightarrow> surface_home_index env font a = surface_home_index env font b"
  by (simp add: surface_home_index_def hash_c_str_eq [of a b])


lemma surface_dispose_empty:
  "s_surface (ttfSurfaceCache s ! i) = nullptr \<Longrightarrow> ttf_surface_cache_dispose i s = s"
  by (simp add: ttf_surface_cache_dispose_def)

lemma getwidth_dispose_empty:
  "w_text (ttfGetWidthCache s ! i) = None \<Longrightarrow> ttf_getwidth_cache_dispose i s = s"
  by (simp add: ttf_getwidth_cache_dispose_def)

lemma lookup_result_index_less:
  assumes "home < N"
    "(case spec_probe rule (spec_probe_sequence N home) of Some r \<Rightarrow> r | None \<Rightarrow> Miss home) = r"
    "r = Miss j \<or> r = Hit j"
  shows "j < N"
proof (cases "spec_probe rule (spec_probe_sequence N home)")
  case None
  with assms show ?thesis by auto
next
  case (Some r')
  with assms(2) have "r' = r" by simp
  with Some obtain k where "k \<in> set (spec_probe_sequence N home)" "r = Hit k \<or> r = Miss k"
    using spec_probe_in_set by blast
  with assms(3) have "j \<in> set (spec_probe_sequence N home)" by auto
  then show ?thesis by (rule spec_probe_sequence_set)
qed

lemma surface_lookup_index_less:
  "ttf_surface_cache_lookup env font str s = Miss j \<or> ttf_surface_cache_lookup env font str s = Hit j
     \<Longrightarrow> j < TTF_SURFACE_CACHE_SIZE"
  using lookup_result_index_less [OF surface_home_index_less surface_lookup_spec [symmetric]]
  by blast


text \<open>A lookup in an empty surface table, and the lookup that follows a successful insertion.\<close>

lemma surface_lookup_all_empty:
  assumes "length (ttfSurfaceCache s) = TTF_SURFACE_CACHE_SIZE"
    "list_all (\<lambda>e. s_surface e = nullptr) (ttfSurfaceCache s)"
  shows "ttf_surface_cache_lookup env font str s = Miss (surface_home_index env font str)"
proof -
  have "s_surface (ttfSurfaceCache s ! surface_home_index env font str) = nullptr"
    using assms surface_home_index_less [of env font str] by (simp add: list_all_length)
  then have "surface_slot_rule (ttfSurfaceCache s) (gCurrentDrawCount s) font str
      (surface_home_index env font str) = Rule_empty"
    by (simp add: surface_slot_rule_def)
  then show ?thesis by (simp add: surface_lookup_home)
qed

lemma surface_lookup_after_insert:
  assumes "j < length cache" "p \<noteq> nullptr" "c_str str' = c_str str"
    "j = surface_home_index env font str"
    "ttfSurfaceCache s1 = cache[j := \<lparr>s_surface = p, s_font = font, s_text = Some (c_str str),
                                     s_lastUseTick = t\<rparr>]"
  shows "ttf_surface_cache_lookup env font str' s1 = Hit j"
proof -
  have h: "surface_home_index env font str' = j"
    using assms(3,4) surface_home_index_c_str [of str' str env font] by simp
  have "surface_slot_rule (ttfSurfaceCache s1) (gCurrentDrawCount s1) font str' j = Rule_hit"
    using assms by (simp add: surface_slot_rule_def)
  then show ?thesis using h by (simp add: surface_lookup_home)
qed

lemma initial_surface_empty:
  "length (ttfSurfaceCache (initial_state tick)) = TTF_SURFACE_CACHE_SIZE"
  "list_all (\<lambda>e. s_surface e = nullptr) (ttfSurfaceCache (initial_state tick))"
  by (simp_all add: initial_state_def list_all_length empty_surface_entry_def)

lemma working_first_lookup:
  "ttf_surface_cache_get_or_add working_env font str (initial_state tick) =
     (0x5000, (initial_state tick)
       \<lparr>ttfSurfaceCache := (replicate TTF_SURFACE_CACHE_SIZE empty_surface_entry)
          [surface_home_index working_env font str :=
             \<lparr>s_surface = 0x5000, s_font = font, s_text = Some (c_str str), s_lastUseTick = tick\<rparr>],
        ttfSurfaceCacheCount := 1, ttfSurfaceCacheMissCount := 1,
        calls := [Call_TTF_RenderUTF8_Solid font str]\<rparr>)"
proof -
  let ?s0 = "initial_state tick"
  have l1: "ttf_surface_cache_lookup working_env font str ?s0
      = Miss (surface_home_index working_env font str)"
    by (rule initial_surface_lookup)
  have d1: "ttf_surface_cache_dispose (surface_home_index working_env font str) ?s0 = ?s0"
    using surface_home_index_less [of working_env font str]
    by (simp add: ttf_surface_cache_dispose_def initial_state_def empty_surface_entry_def)
  show ?thesis
    unfolding surface_miss_effect [OF l1] d1
    by (simp add: ttf_render_def initial_state_def working_env_def nullptr_def Let_def)
qed

lemma failing_first_lookup:
  "ttf_surface_cache_get_or_add failing_env font str (initial_state tick) =
     (nullptr, (initial_state tick)\<lparr>calls := [Call_TTF_RenderUTF8_Solid font str]\<rparr>)"
proof -
  let ?s0 = "initial_state tick"
  have l1: "ttf_surface_cache_lookup failing_env font str ?s0
      = Miss (surface_home_index failing_env font str)"
    by (rule initial_surface_lookup)
  have d1: "ttf_surface_cache_dispose (surface_home_index failing_env font str) ?s0 = ?s0"
    using surface_home_index_less [of failing_env font str]
    by (simp add: ttf_surface_cache_dispose_def initial_state_def empty_surface_entry_def)
  show ?thesis
    unfolding surface_miss_effect [OF l1] d1
    by (simp add: ttf_render_def initial_state_def failing_env_def working_env_def Let_def)
qed

lemma failing_render: "fst (ttf_render failing_env font str s) = nullptr"
  by (simp add: ttf_render_def failing_env_def)

text \<open>
  Claim C2, as amended. In a surface cache with every slot empty, the first
  \<^verbatim>\<open>GetOrAddSurface\<close> of a (font, text) pair is a miss at the home slot and calls the
  renderer exactly once. Provided that call returned a surface, a lookup of the same font and
  the same text (equal as C strings) that follows at once, at the same tick, is a hit at
  that slot: it returns the same surface pointer, calls the renderer zero times and
  increments the hit counter.
\<close>

theorem first_lookup_miss_then_hit:
  "length (ttfSurfaceCache s) = TTF_SURFACE_CACHE_SIZE
   \<and> list_all (\<lambda>e. s_surface e = nullptr) (ttfSurfaceCache s)
   \<longrightarrow>
     ttf_surface_cache_lookup env font str s = Miss (surface_home_index env font str)
     \<and> render_calls (snd (ttf_surface_cache_get_or_add env font str s)) = render_calls s + 1
     \<and> gCurrentDrawCount (snd (ttf_surface_cache_get_or_add env font str s)) = gCurrentDrawCount s
     \<and> (fst (ttf_surface_cache_get_or_add env font str s) \<noteq> nullptr \<and> c_str str' = c_str str
          \<longrightarrow>
            ttf_surface_cache_lookup env font str' (snd (ttf_surface_cache_get_or_add env font str s))
              = Hit (surface_home_index env font str)
            \<and> fst (ttf_surface_cache_get_or_add env font str'
                      (snd (ttf_surface_cache_get_or_add env font str s)))
                = fst (ttf_surface_cache_get_or_add env font str s)
            \<and> render_calls (snd (ttf_surface_cache_get_or_add env font str'
                      (snd (ttf_surface_cache_get_or_add env font str s))))
                = render_calls (snd (ttf_surface_cache_get_or_add env font str s))
            \<and> ttfSurfaceCacheHitCount (snd (ttf_surface_cache_get_or_add env font str'
                      (snd (ttf_surface_cache_get_or_add env font str s))))
                = ttfSurfaceCacheHitCount s + 1)"
proof (intro impI)
  let ?home = "surface_home_index env font str"
  let ?r1 = "ttf_surface_cache_get_or_add env font str s"
  assume a: "length (ttfSurfaceCache s) = TTF_SURFACE_CACHE_SIZE
   \<and> list_all (\<lambda>e. s_surface e = nullptr) (ttfSurfaceCache s)"
  then have lk: "ttf_surface_cache_lookup env font str s = Miss ?home"
    by (simp add: surface_lookup_all_empty)
  have hl: "?home < length (ttfSurfaceCache s)"
    using a surface_home_index_less [of env font str] by simp
  with a have "s_surface (ttfSurfaceCache s ! ?home) = nullptr"
    by (simp add: list_all_length)
  then have d: "ttf_surface_cache_dispose ?home s = s" by (rule surface_dispose_empty)
  let ?r = "ttf_render env font str s"
  have r1: "?r1 = (if fst ?r = nullptr then (nullptr, snd ?r)
      else (fst ?r,
            (snd ?r)\<lparr>ttfSurfaceCacheMissCount := ttfSurfaceCacheMissCount s + 1,
                    ttfSurfaceCacheCount := ttfSurfaceCacheCount s + 1,
                    ttfSurfaceCache := (ttfSurfaceCache s)
                      [?home := \<lparr>s_surface = fst ?r, s_font = font, s_text = Some (c_str str),
                             s_lastUseTick = gCurrentDrawCount s\<rparr>]\<rparr>))"
    by (simp add: surface_miss_effect [OF lk] d Let_def)
  have rc: "render_calls (snd ?r1) = render_calls s + 1"
    and tk: "gCurrentDrawCount (snd ?r1) = gCurrentDrawCount s"
    by (simp_all add: r1)
  have second: "ttf_surface_cache_lookup env font str' (snd ?r1) = Hit ?home
      \<and> fst (ttf_surface_cache_get_or_add env font str' (snd ?r1)) = fst ?r1
      \<and> render_calls (snd (ttf_surface_cache_get_or_add env font str' (snd ?r1)))
          = render_calls (snd ?r1)
      \<and> ttfSurfaceCacheHitCount (snd (ttf_surface_cache_get_or_add env font str' (snd ?r1)))
          = ttfSurfaceCacheHitCount s + 1"
    if ok: "fst ?r1 \<noteq> nullptr \<and> c_str str' = c_str str"
  proof -
    from ok have nz: "fst ?r \<noteq> nullptr" by (auto simp: r1 split: if_splits)
    have c1: "ttfSurfaceCache (snd ?r1) = (ttfSurfaceCache s)
        [?home := \<lparr>s_surface = fst ?r, s_font = font, s_text = Some (c_str str),
                    s_lastUseTick = gCurrentDrawCount s\<rparr>]"
      using nz by (simp add: r1)
    have hit: "ttf_surface_cache_lookup env font str' (snd ?r1) = Hit ?home"
      using hl nz ok c1 by (intro surface_lookup_after_insert [where cache = "ttfSurfaceCache s"]) simp_all
    have h1: "ttfSurfaceCacheHitCount (snd ?r1) = ttfSurfaceCacheHitCount s"
      by (simp add: r1)
    have f1: "fst ?r1 = fst ?r" using nz by (simp add: r1)
    show ?thesis
      using hit hl by (simp add: surface_hit_effect [OF hit] c1 h1 f1)
  qed
  from lk rc tk second show
    "ttf_surface_cache_lookup env font str s = Miss ?home
     \<and> render_calls (snd ?r1) = render_calls s + 1
     \<and> gCurrentDrawCount (snd ?r1) = gCurrentDrawCount s
     \<and> (fst ?r1 \<noteq> nullptr \<and> c_str str' = c_str str
          \<longrightarrow>
            ttf_surface_cache_lookup env font str' (snd ?r1) = Hit ?home
            \<and> fst (ttf_surface_cache_get_or_add env font str' (snd ?r1)) = fst ?r1
            \<and> render_calls (snd (ttf_surface_cache_get_or_add env font str' (snd ?r1)))
                = render_calls (snd ?r1)
            \<and> ttfSurfaceCacheHitCount (snd (ttf_surface_cache_get_or_add env font str' (snd ?r1)))
                = ttfSurfaceCacheHitCount s + 1)"
    by blast
qed

theorem first_lookup_miss_then_hit_witness:
  "length (ttfSurfaceCache (initial_state 100)) = TTF_SURFACE_CACHE_SIZE
   \<and> list_all (\<lambda>e. s_surface e = nullptr) (ttfSurfaceCache (initial_state 100))
   \<and> fst (ttf_surface_cache_get_or_add working_env 0x1000 [72, 105] (initial_state 100)) \<noteq> nullptr
   \<and> c_str [72, 105, 0, 33] = c_str [72, 105]
   \<and> ttf_surface_cache_lookup working_env 0x1000 [72, 105, 0, 33]
        (snd (ttf_surface_cache_get_or_add working_env 0x1000 [72, 105] (initial_state 100)))
       = Hit (surface_home_index working_env 0x1000 [72, 105])
   \<and> fst (ttf_surface_cache_get_or_add working_env 0x1000 [72, 105, 0, 33]
             (snd (ttf_surface_cache_get_or_add working_env 0x1000 [72, 105] (initial_state 100))))
       = 0x5000
   \<and> render_calls (snd (ttf_surface_cache_get_or_add working_env 0x1000 [72, 105, 0, 33]
             (snd (ttf_surface_cache_get_or_add working_env 0x1000 [72, 105] (initial_state 100)))))
       = 1"
proof -
  have a: "length (ttfSurfaceCache (initial_state 100)) = TTF_SURFACE_CACHE_SIZE
   \<and> list_all (\<lambda>e. s_surface e = nullptr) (ttfSurfaceCache (initial_state 100))"
    using initial_surface_empty by simp
  have b: "fst (ttf_surface_cache_get_or_add working_env 0x1000 [72, 105] (initial_state 100)) \<noteq> nullptr
     \<and> c_str [72, 105, 0, 33] = c_str [72, 105]"
    by (simp add: working_first_lookup nullptr_def)
  have f: "fst (ttf_surface_cache_get_or_add working_env 0x1000 [72, 105] (initial_state 100)) = 0x5000"
    by (simp add: working_first_lookup)
  have rc: "render_calls (initial_state 100) = 0" by (simp add: render_calls_def initial_state_def)
  note T = first_lookup_miss_then_hit [of "initial_state 100" working_env "0x1000" "[72, 105]"
      "[72, 105, 0, 33]", rule_format, OF a]
  from T b f rc a show ?thesis by (simp del: c_str.simps)
qed

text \<open>
  The claim as stated has no condition on the renderer. With a renderer that fails, the
  first lookup of (0x1000, "Hi") in the empty cache is a miss with one render call, and the
  lookup that follows is a miss again, with a second render call.
\<close>

theorem first_lookup_render_failure_counterexample:
  "length (ttfSurfaceCache (initial_state 100)) = TTF_SURFACE_CACHE_SIZE
   \<and> list_all (\<lambda>e. s_surface e = nullptr) (ttfSurfaceCache (initial_state 100))
   \<and> ttf_surface_cache_lookup failing_env 0x1000 [72, 105] (initial_state 100)
       = Miss (surface_home_index failing_env 0x1000 [72, 105])
   \<and> ttf_surface_cache_lookup failing_env 0x1000 [72, 105]
        (snd (ttf_surface_cache_get_or_add failing_env 0x1000 [72, 105] (initial_state 100)))
       = Miss (surface_home_index failing_env 0x1000 [72, 105])
   \<and> render_calls (snd (ttf_surface_cache_get_or_add failing_env 0x1000 [72, 105] (initial_state 100)))
       = 1
   \<and> render_calls (snd (ttf_surface_cache_get_or_add failing_env 0x1000 [72, 105]
        (snd (ttf_surface_cache_get_or_add failing_env 0x1000 [72, 105] (initial_state 100)))))
       = 2"
proof -
  let ?s1 = "(initial_state 100)\<lparr>calls := [Call_TTF_RenderUTF8_Solid 0x1000 [72, 105]]\<rparr>"
  have e: "length (ttfSurfaceCache ?s1) = TTF_SURFACE_CACHE_SIZE"
    "list_all (\<lambda>e. s_surface e = nullptr) (ttfSurfaceCache ?s1)"
    using initial_surface_empty by simp_all
  have l2: "ttf_surface_cache_lookup failing_env 0x1000 [72, 105] ?s1
      = Miss (surface_home_index failing_env 0x1000 [72, 105])"
    by (rule surface_lookup_all_empty [OF e])
  have d2: "ttf_surface_cache_dispose (surface_home_index failing_env 0x1000 [72, 105]) ?s1 = ?s1"
    using surface_home_index_less [of failing_env "0x1000" "[72, 105]"]
    by (intro surface_dispose_empty) (simp add: initial_state_def empty_surface_entry_def)
  have rc1: "render_calls ?s1 = 1" by (simp add: render_calls_def)
  have r2: "render_calls (snd (ttf_surface_cache_get_or_add failing_env 0x1000 [72, 105] ?s1)) = 2"
    unfolding surface_miss_effect [OF l2] d2
    by (simp add: Let_def rc1 failing_render)
  show ?thesis
    using initial_surface_empty [of 100] initial_surface_lookup [of failing_env "0x1000" "[72, 105]" 100]
      l2 r2
    by (simp add: failing_first_lookup render_calls_def)
qed

section \<open>A render that fails\<close>

lemma spec_probe_emptied:
  assumes "rule' j = Rule_empty" "\<forall>k. k \<noteq> j \<longrightarrow> rule' k = rule k"
  shows "spec_probe rule xs = Some (Miss j) \<Longrightarrow> spec_probe rule' xs = Some (Miss j)"
proof (induction xs)
  case Nil
  then show ?case by simp
next
  case (Cons x xs)
  show ?case
  proof (cases "x = j")
    case True
    then show ?thesis using assms(1) by simp
  next
    case False
    with assms(2) have "rule' x = rule x" by simp
    with Cons False show ?thesis by (cases "rule x") simp_all
  qed
qed

lemma lookup_after_emptied:
  assumes "home < N" "rule' j = Rule_empty" "\<forall>k. k \<noteq> j \<longrightarrow> rule' k = rule k"
    "(case spec_probe rule (spec_probe_sequence N home) of Some r \<Rightarrow> r | None \<Rightarrow> Miss home) = Miss j"
  shows "(case spec_probe rule' (spec_probe_sequence N home) of Some r \<Rightarrow> r | None \<Rightarrow> Miss home) = Miss j"
proof (cases "spec_probe rule (spec_probe_sequence N home)")
  case None
  with assms(4) have "j = home" by simp
  with assms(1,2) show ?thesis by (simp add: spec_probe_home)
next
  case (Some r)
  with assms(4) have "spec_probe rule (spec_probe_sequence N home) = Some (Miss j)" by simp
  then have "spec_probe rule' (spec_probe_sequence N home) = Some (Miss j)"
    by (rule spec_probe_emptied [OF assms(2,3)])
  then show ?thesis by simp
qed

lemma surface_lookup_after_dispose:
  assumes lk: "ttf_surface_cache_lookup env font str s = Miss j"
    and len: "length (ttfSurfaceCache s) = TTF_SURFACE_CACHE_SIZE"
    and c: "ttfSurfaceCache s' = ttfSurfaceCache (ttf_surface_cache_dispose j s)"
    and t: "gCurrentDrawCount s' = gCurrentDrawCount s"
  shows "ttf_surface_cache_lookup env font str s' = Miss j"
proof -
  let ?rule = "surface_slot_rule (ttfSurfaceCache s) (gCurrentDrawCount s) font str"
  let ?rule' = "surface_slot_rule (ttfSurfaceCache s') (gCurrentDrawCount s') font str"
  have jl: "j < length (ttfSurfaceCache s)"
    using surface_lookup_index_less [of env font str s j] lk len by simp
  have e: "?rule' j = Rule_empty"
    using jl by (simp add: surface_slot_rule_def c surface_dispose_slot)
  have o: "\<forall>k. k \<noteq> j \<longrightarrow> ?rule' k = ?rule k"
  proof (intro allI impI)
    fix k assume "k \<noteq> j"
    then have "ttfSurfaceCache s' ! k = ttfSurfaceCache s ! k"
      by (simp add: c surface_dispose_other)
    then show "?rule' k = ?rule k" by (auto simp: surface_slot_rule_def t)
  qed
  show ?thesis
    unfolding surface_lookup_spec
    by (rule lookup_after_emptied [OF surface_home_index_less e o])
       (use lk in \<open>simp add: surface_lookup_spec\<close>)
qed


lemma surface_dispose_calls:
  "calls (ttf_surface_cache_dispose j s) =
     calls s @ (if s_surface (ttfSurfaceCache s ! j) \<noteq> nullptr
                then [Call_ttf_free_surface (s_surface (ttfSurfaceCache s ! j)),
                      Call_free_text (s_text (ttfSurfaceCache s ! j))]
                else [])"
  by (simp add: ttf_surface_cache_dispose_def Let_def)

lemma render_calls_log:
  "calls (snd (ttf_render env font str s)) =
     calls s @ [if fontHinting s font \<noteq> 0 then Call_TTF_RenderUTF8_Shaded font str
                else Call_TTF_RenderUTF8_Solid font str]"
  by (simp add: ttf_render_def)

lemma flaky_home: "surface_home_index flaky_env font str = surface_home_index working_env font str"
  by (simp add: surface_home_index_def flaky_env_def)

lemma early_flaky_lookup:
  "ttf_surface_cache_lookup flaky_env 0x2000 [] early_state = Miss 170"
proof -
  have "surface_slot_rule (ttfSurfaceCache early_state) (gCurrentDrawCount early_state) 0x2000 [] 170
      = Rule_stale"
    by (simp add: early_state_eq surface_slot_rule_def initial_state_def nullptr_def
          TTF_SURFACE_CACHE_SIZE_def)
  then show ?thesis
    by (subst surface_lookup_home) (simp_all add: flaky_home home_empty_text)
qed

lemma flaky_render:
  "fst (ttf_render flaky_env font str s) =
     (if calls s \<noteq> [] \<and> is_render_call (last (calls s)) then 0x6000 else nullptr)"
  by (simp add: ttf_render_def flaky_env_def)

text \<open>
  Claim C4. When a \<^verbatim>\<open>GetOrAddSurface\<close> lookup misses at slot \<open>j\<close> and the renderer
  returns no surface, the function returns \<open>nullptr\<close>; slot \<open>j\<close> is empty afterwards
  and every other slot is as before; the miss, occupancy and hit counters, the whole width
  cache, the tick and the hinting flags are unchanged; the only calls made are the release
  of the previous contents of slot \<open>j\<close> (its surface and its text, once, when it was
  occupied) and the one render call. The slot stays available: the next lookup of the same
  key misses at slot \<open>j\<close> again, and when the renderer then returns a surface, that
  surface is returned and stored in slot \<open>j\<close> under the key.
\<close>

theorem render_failure_keeps_slot_available:
  "tables_sized s
   \<and> ttf_surface_cache_lookup env font str s = Miss j
   \<and> fst (ttf_render env font str (ttf_surface_cache_dispose j s)) = nullptr
   \<longrightarrow>
     (let s' = snd (ttf_surface_cache_get_or_add env font str s) in
        fst (ttf_surface_cache_get_or_add env font str s) = nullptr
        \<and> s_surface (ttfSurfaceCache s' ! j) = nullptr
        \<and> (\<forall>k. k \<noteq> j \<longrightarrow> ttfSurfaceCache s' ! k = ttfSurfaceCache s ! k)
        \<and> ttfSurfaceCacheMissCount s' = ttfSurfaceCacheMissCount s
        \<and> ttfSurfaceCacheCount s' = ttfSurfaceCacheCount s
        \<and> ttfSurfaceCacheHitCount s' = ttfSurfaceCacheHitCount s
        \<and> ttfGetWidthCache s' = ttfGetWidthCache s
        \<and> ttfGetWidthCacheCount s' = ttfGetWidthCacheCount s
        \<and> ttfGetWidthCacheHitCount s' = ttfGetWidthCacheHitCount s
        \<and> ttfGetWidthCacheMissCount s' = ttfGetWidthCacheMissCount s
        \<and> gCurrentDrawCount s' = gCurrentDrawCount s
        \<and> fontHinting s' = fontHinting s
        \<and> calls s' =
             calls s @ (if s_surface (ttfSurfaceCache s ! j) \<noteq> nullptr
                        then [Call_ttf_free_surface (s_surface (ttfSurfaceCache s ! j)),
                              Call_free_text (s_text (ttfSurfaceCache s ! j))]
                        else [])
                     @ [if fontHinting s font \<noteq> 0 then Call_TTF_RenderUTF8_Shaded font str
                        else Call_TTF_RenderUTF8_Solid font str]
        \<and> ttf_surface_cache_lookup env font str s' = Miss j
        \<and> (fst (ttf_render env font str s') \<noteq> nullptr \<longrightarrow>
             fst (ttf_surface_cache_get_or_add env font str s') = fst (ttf_render env font str s')
             \<and> ttfSurfaceCache (snd (ttf_surface_cache_get_or_add env font str s')) ! j
                 = \<lparr>s_surface = fst (ttf_render env font str s'), s_font = font,
                    s_text = Some (c_str str), s_lastUseTick = gCurrentDrawCount s\<rparr>))"
proof (intro impI)
  assume a: "tables_sized s
   \<and> ttf_surface_cache_lookup env font str s = Miss j
   \<and> fst (ttf_render env font str (ttf_surface_cache_dispose j s)) = nullptr"
  then have lk: "ttf_surface_cache_lookup env font str s = Miss j"
    and len: "length (ttfSurfaceCache s) = TTF_SURFACE_CACHE_SIZE"
    and fail: "fst (ttf_render env font str (ttf_surface_cache_dispose j s)) = nullptr"
    by (simp_all add: tables_sized_def)
  let ?d = "ttf_surface_cache_dispose j s"
  let ?s' = "snd (ttf_render env font str ?d)"
  have r: "ttf_surface_cache_get_or_add env font str s = (nullptr, ?s')"
    by (simp add: surface_miss_effect [OF lk] Let_def fail)
  have jl: "j < length (ttfSurfaceCache s)"
    using surface_lookup_index_less [of env font str s j] lk len by simp
  have slot: "s_surface (ttfSurfaceCache ?s' ! j) = nullptr"
    using jl by (simp add: surface_dispose_slot)
  have other: "\<forall>k. k \<noteq> j \<longrightarrow> ttfSurfaceCache ?s' ! k = ttfSurfaceCache s ! k"
    by (simp add: surface_dispose_other)
  have log: "calls ?s' =
             calls s @ (if s_surface (ttfSurfaceCache s ! j) \<noteq> nullptr
                        then [Call_ttf_free_surface (s_surface (ttfSurfaceCache s ! j)),
                              Call_free_text (s_text (ttfSurfaceCache s ! j))]
                        else [])
                     @ [if fontHinting s font \<noteq> 0 then Call_TTF_RenderUTF8_Shaded font str
                        else Call_TTF_RenderUTF8_Solid font str]"
    by (simp add: render_calls_log surface_dispose_calls)
  have lk': "ttf_surface_cache_lookup env font str ?s' = Miss j"
    by (rule surface_lookup_after_dispose [OF lk len]) simp_all
  have d': "ttf_surface_cache_dispose j ?s' = ?s'"
    by (rule surface_dispose_empty [OF slot])
  have again: "fst (ttf_surface_cache_get_or_add env font str ?s') = fst (ttf_render env font str ?s')
             \<and> ttfSurfaceCache (snd (ttf_surface_cache_get_or_add env font str ?s')) ! j
                 = \<lparr>s_surface = fst (ttf_render env font str ?s'), s_font = font,
                    s_text = Some (c_str str), s_lastUseTick = gCurrentDrawCount s\<rparr>"
    if "fst (ttf_render env font str ?s') \<noteq> nullptr"
    using that jl by (simp add: surface_miss_effect [OF lk'] d' Let_def)
  show "let s' = snd (ttf_surface_cache_get_or_add env font str s) in
        fst (ttf_surface_cache_get_or_add env font str s) = nullptr
        \<and> s_surface (ttfSurfaceCache s' ! j) = nullptr
        \<and> (\<forall>k. k \<noteq> j \<longrightarrow> ttfSurfaceCache s' ! k = ttfSurfaceCache s ! k)
        \<and> ttfSurfaceCacheMissCount s' = ttfSurfaceCacheMissCount s
        \<and> ttfSurfaceCacheCount s' = ttfSurfaceCacheCount s
        \<and> ttfSurfaceCacheHitCount s' = ttfSurfaceCacheHitCount s
        \<and> ttfGetWidthCache s' = ttfGetWidthCache s
        \<and> ttfGetWidthCacheCount s' = ttfGetWidthCacheCount s
        \<and> ttfGetWidthCacheHitCount s' = ttfGetWidthCacheHitCount s
        \<and> ttfGetWidthCacheMissCount s' = ttfGetWidthCacheMissCount s
        \<and> gCurrentDrawCount s' = gCurrentDrawCount s
        \<and> fontHinting s' = fontHinting s
        \<and> calls s' =
             calls s @ (if s_surface (ttfSurfaceCache s ! j) \<noteq> nullptr
                        then [Call_ttf_free_surface (s_surface (ttfSurfaceCache s ! j)),
                              Call_free_text (s_text (ttfSurfaceCache s ! j))]
                        else [])
                     @ [if fontHinting s font \<noteq> 0 then Call_TTF_RenderUTF8_Shaded font str
                        else Call_TTF_RenderUTF8_Solid font str]
        \<and> ttf_surface_cache_lookup env font str s' = Miss j
        \<and> (fst (ttf_render env font str s') \<noteq> nullptr \<longrightarrow>
             fst (ttf_surface_cache_get_or_add env font str s') = fst (ttf_render env font str s')
             \<and> ttfSurfaceCache (snd (ttf_surface_cache_get_or_add env font str s')) ! j
                 = \<lparr>s_surface = fst (ttf_render env font str s'), s_font = font,
                    s_text = Some (c_str str), s_lastUseTick = gCurrentDrawCount s\<rparr>)"
    unfolding r Let_def snd_conv fst_conv
    using slot other log lk' again by simp
qed

theorem render_failure_keeps_slot_available_witness:
  "tables_sized early_state
   \<and> ttf_surface_cache_lookup flaky_env 0x2000 [] early_state = Miss 170
   \<and> s_surface (ttfSurfaceCache early_state ! 170) \<noteq> nullptr
   \<and> fst (ttf_render flaky_env 0x2000 [] (ttf_surface_cache_dispose 170 early_state)) = nullptr
   \<and> fst (ttf_surface_cache_get_or_add flaky_env 0x2000 [] early_state) = nullptr
   \<and> s_surface (ttfSurfaceCache (snd (ttf_surface_cache_get_or_add flaky_env 0x2000 [] early_state))
                  ! 170) = nullptr
   \<and> ttfSurfaceCacheCount (snd (ttf_surface_cache_get_or_add flaky_env 0x2000 [] early_state)) = 1
   \<and> ttf_surface_cache_lookup flaky_env 0x2000 []
        (snd (ttf_surface_cache_get_or_add flaky_env 0x2000 [] early_state)) = Miss 170
   \<and> fst (ttf_render flaky_env 0x2000 []
        (snd (ttf_surface_cache_get_or_add flaky_env 0x2000 [] early_state))) \<noteq> nullptr
   \<and> fst (ttf_surface_cache_get_or_add flaky_env 0x2000 []
        (snd (ttf_surface_cache_get_or_add flaky_env 0x2000 [] early_state))) = 0x6000"
proof -
  let ?s' = "snd (ttf_surface_cache_get_or_add flaky_env 0x2000 [] early_state)"
  have occ: "s_surface (ttfSurfaceCache early_state ! 170) \<noteq> nullptr"
    by (simp add: early_state_eq initial_state_def nullptr_def TTF_SURFACE_CACHE_SIZE_def)
  have c0: "calls early_state = [Call_TTF_RenderUTF8_Solid 0x1000 [], Call_TTF_SizeUTF8 0x1000 []]"
    by (simp add: early_state_eq initial_state_def)
  have fail: "fst (ttf_render flaky_env 0x2000 [] (ttf_surface_cache_dispose 170 early_state)) = nullptr"
    by (simp add: flaky_render surface_dispose_calls c0)
  have cnt: "ttfSurfaceCacheCount early_state = 1"
    by (simp add: early_state_eq initial_state_def)
  have hint: "fontHinting early_state 0x2000 = 0"
    by (simp add: early_state_eq initial_state_def)
  note T = render_failure_keeps_slot_available [of early_state flaky_env "0x2000" "[]" 170,
      unfolded Let_def, rule_format, OF conjI [OF early_state_sized conjI [OF early_flaky_lookup fail]]]
  from T have log: "calls ?s' = calls early_state
      @ (if s_surface (ttfSurfaceCache early_state ! 170) \<noteq> nullptr
         then [Call_ttf_free_surface (s_surface (ttfSurfaceCache early_state ! 170)),
               Call_free_text (s_text (ttfSurfaceCache early_state ! 170))]
         else [])
      @ [if fontHinting early_state 0x2000 \<noteq> 0 then Call_TTF_RenderUTF8_Shaded 0x2000 []
         else Call_TTF_RenderUTF8_Solid 0x2000 []]"
    by blast
  have ok: "fst (ttf_render flaky_env 0x2000 [] ?s') = 0x6000"
    by (simp add: flaky_render log hint)
  then have ok': "fst (ttf_render flaky_env 0x2000 [] ?s') \<noteq> nullptr"
    by (simp add: nullptr_def)
  from T ok' have "fst (ttf_surface_cache_get_or_add flaky_env 0x2000 [] ?s')
      = fst (ttf_render flaky_env 0x2000 [] ?s')"
    by blast
  with T ok ok' occ fail cnt early_state_sized early_flaky_lookup show ?thesis
    by simp
qed

section \<open>The hinting toggle with a TrueType font\<close>

lemma set_font_hinting_fields [simp]:
  "ttfSurfaceCache (set_font_hinting env d s) = ttfSurfaceCache s"
  "ttfSurfaceCacheCount (set_font_hinting env d s) = ttfSurfaceCacheCount s"
  "ttfSurfaceCacheHitCount (set_font_hinting env d s) = ttfSurfaceCacheHitCount s"
  "ttfSurfaceCacheMissCount (set_font_hinting env d s) = ttfSurfaceCacheMissCount s"
  "ttfGetWidthCache (set_font_hinting env d s) = ttfGetWidthCache s"
  "ttfGetWidthCacheCount (set_font_hinting env d s) = ttfGetWidthCacheCount s"
  "ttfGetWidthCacheHitCount (set_font_hinting env d s) = ttfGetWidthCacheHitCount s"
  "ttfGetWidthCacheMissCount (set_font_hinting env d s) = ttfGetWidthCacheMissCount s"
  "gCurrentDrawCount (set_font_hinting env d s) = gCurrentDrawCount s"
  "render_calls (set_font_hinting env d s) = render_calls s"
  by (simp_all add: set_font_hinting_def Let_def render_calls_def)

lemma set_font_hinting_fold:
  "ttfSurfaceCache (fold (set_font_hinting env) ds s) = ttfSurfaceCache s
   \<and> ttfSurfaceCacheCount (fold (set_font_hinting env) ds s) = ttfSurfaceCacheCount s
   \<and> ttfSurfaceCacheHitCount (fold (set_font_hinting env) ds s) = ttfSurfaceCacheHitCount s
   \<and> ttfSurfaceCacheMissCount (fold (set_font_hinting env) ds s) = ttfSurfaceCacheMissCount s
   \<and> ttfGetWidthCache (fold (set_font_hinting env) ds s) = ttfGetWidthCache s
   \<and> ttfGetWidthCacheCount (fold (set_font_hinting env) ds s) = ttfGetWidthCacheCount s
   \<and> ttfGetWidthCacheHitCount (fold (set_font_hinting env) ds s) = ttfGetWidthCacheHitCount s
   \<and> ttfGetWidthCacheMissCount (fold (set_font_hinting env) ds s) = ttfGetWidthCacheMissCount s
   \<and> gCurrentDrawCount (fold (set_font_hinting env) ds s) = gCurrentDrawCount s
   \<and> render_calls (fold (set_font_hinting env) ds s) = render_calls s"
  by (induction ds arbitrary: s) simp_all

lemma toggle_hinting_width_untouched:
  assumes "tables_sized s"
  shows "ttfGetWidthCache (ttf_toggle_hinting env s) = ttfGetWidthCache s"
    and "gCurrentDrawCount (ttf_toggle_hinting env s) = gCurrentDrawCount s"
    and "ttfGetWidthCacheCount (ttf_toggle_hinting env s) = ttfGetWidthCacheCount s"
    and "ttfGetWidthCacheHitCount (ttf_toggle_hinting env s) = ttfGetWidthCacheHitCount s"
    and "ttfGetWidthCacheMissCount (ttf_toggle_hinting env s) = ttfGetWidthCacheMissCount s"
    and "render_calls (ttf_toggle_hinting env s) = render_calls s"
proof -
  let ?s1 = "fold (set_font_hinting env) (currentTTFFontSet env) s"
  have sz: "tables_sized ?s1"
    using assms set_font_hinting_fold [of env "currentTTFFontSet env" s]
    by (simp add: tables_sized_def)
  note D = surface_dispose_all_effect [OF sz]
  note F = set_font_hinting_fold [of env "currentTTFFontSet env" s]
  show "ttfGetWidthCache (ttf_toggle_hinting env s) = ttfGetWidthCache s"
    and "gCurrentDrawCount (ttf_toggle_hinting env s) = gCurrentDrawCount s"
    and "ttfGetWidthCacheCount (ttf_toggle_hinting env s) = ttfGetWidthCacheCount s"
    and "ttfGetWidthCacheHitCount (ttf_toggle_hinting env s) = ttfGetWidthCacheHitCount s"
    and "ttfGetWidthCacheMissCount (ttf_toggle_hinting env s) = ttfGetWidthCacheMissCount s"
    and "render_calls (ttf_toggle_hinting env s) = render_calls s"
    using D F by (simp_all add: ttf_toggle_hinting_def Let_def)
qed

lemma toggle_hinting_surfaces_disposed:
  assumes "tables_sized s" "UseTrueTypeFont env" "ttfSurfaceCacheCount s \<noteq> 0"
  shows "length (ttfSurfaceCache (ttf_toggle_hinting env s)) = TTF_SURFACE_CACHE_SIZE"
    and "list_all (\<lambda>e. s_surface e = nullptr) (ttfSurfaceCache (ttf_toggle_hinting env s))"
proof -
  let ?s1 = "fold (set_font_hinting env) (currentTTFFontSet env) s"
  note F = set_font_hinting_fold [of env "currentTTFFontSet env" s]
  have sz: "tables_sized ?s1" using assms(1) F by (simp add: tables_sized_def)
  have t: "ttf_toggle_hinting env s = ttf_surface_cache_dispose_all ?s1"
    using assms(2,3) F by (simp add: ttf_toggle_hinting_def Let_def)
  show "length (ttfSurfaceCache (ttf_toggle_hinting env s)) = TTF_SURFACE_CACHE_SIZE"
    and "list_all (\<lambda>e. s_surface e = nullptr) (ttfSurfaceCache (ttf_toggle_hinting env s))"
    unfolding t using surface_dispose_all_effect(2,3) [OF sz] by simp_all
qed

lemma getwidth_lookup_cong:
  assumes "ttfGetWidthCache s' = ttfGetWidthCache s" "gCurrentDrawCount s' = gCurrentDrawCount s"
  shows "ttf_getwidth_cache_lookup env font str s' = ttf_getwidth_cache_lookup env font str s"
  by (simp add: ttf_getwidth_cache_lookup_def assms)

lemma surface_get_or_add_width_untouched:
  "ttfGetWidthCache (snd (ttf_surface_cache_get_or_add env font str s)) = ttfGetWidthCache s"
  "gCurrentDrawCount (snd (ttf_surface_cache_get_or_add env font str s)) = gCurrentDrawCount s"
  by (cases "ttf_surface_cache_lookup env font str s";
      simp add: surface_hit_effect surface_miss_effect Let_def)+

lemma surface_miss_render_once:
  assumes "ttf_surface_cache_lookup env font str s = Miss j"
  shows "render_calls (snd (ttf_surface_cache_get_or_add env font str s)) = render_calls s + 1"
  by (simp add: surface_miss_effect [OF assms] Let_def)

lemma surface_hit_render_none:
  assumes "ttf_surface_cache_lookup env font str s = Hit j"
  shows "render_calls (snd (ttf_surface_cache_get_or_add env font str s)) = render_calls s"
  by (simp add: surface_hit_effect [OF assms])

lemma cached_lookups:
  assumes "char_is_signed env = True"
  shows "ttf_surface_cache_lookup env 0x1000 [72, 105] cached_state
           = Hit (surface_home_index working_env 0x1000 [72, 105])"
    and "ttf_getwidth_cache_lookup env 0x1000 [72, 105] cached_state
           = Hit (getwidth_home_index working_env 0x1000 [72, 105])"
proof -
  have h: "surface_home_index env 0x1000 [72, 105] = surface_home_index working_env 0x1000 [72, 105]"
    "getwidth_home_index env 0x1000 [72, 105] = getwidth_home_index working_env 0x1000 [72, 105]"
    using assms by (simp_all add: surface_home_index_def getwidth_home_index_def working_env_def)
  show "ttf_surface_cache_lookup env 0x1000 [72, 105] cached_state
           = Hit (surface_home_index working_env 0x1000 [72, 105])"
    by (subst surface_lookup_home) (simp_all add: h cached_surface_rule)
  show "ttf_getwidth_cache_lookup env 0x1000 [72, 105] cached_state
           = Hit (getwidth_home_index working_env 0x1000 [72, 105])"
    by (subst getwidth_lookup_home) (simp_all add: h cached_getwidth_rule)
qed

lemma toggle_hinting_zero_counter:
  assumes "ttfSurfaceCacheCount s = 0"
  shows "ttfSurfaceCache (ttf_toggle_hinting env s) = ttfSurfaceCache s"
  using assms set_font_hinting_fold [of env "currentTTFFontSet env" s]
  by (simp add: ttf_toggle_hinting_def Let_def)

text \<open>
  Claim C5, as amended. The toggle never touches the width cache: after it, in every state
  (with the tables at their declared sizes), a width lookup gives what it gave before (a key
  that was a hit is still a hit, with the same width), also once a surface lookup has been
  made in between. When the TrueType font
  is in use and the surface counter is not 0, the toggle empties every slot of the surface
  cache, so the next \<^verbatim>\<open>GetOrAddSurface\<close> of any key is a miss at its home slot and calls
  the renderer once.
\<close>

theorem toggle_hinting_invalidates_surfaces_only:
  "tables_sized s \<longrightarrow>
     ttfGetWidthCache (ttf_toggle_hinting env s) = ttfGetWidthCache s
     \<and> ttf_getwidth_cache_lookup env font str (ttf_toggle_hinting env s)
         = ttf_getwidth_cache_lookup env font str s
     \<and> ttf_getwidth_cache_lookup env font str
          (snd (ttf_surface_cache_get_or_add env font str (ttf_toggle_hinting env s)))
         = ttf_getwidth_cache_lookup env font str s
     \<and> (\<forall>j. ttf_getwidth_cache_lookup env font str s = Hit j \<longrightarrow>
           fst (ttf_getwidth_cache_get_or_add env font str (ttf_toggle_hinting env s))
             = w_width (ttfGetWidthCache s ! j))
     \<and> (UseTrueTypeFont env \<and> ttfSurfaceCacheCount s \<noteq> 0 \<longrightarrow>
           list_all (\<lambda>e. s_surface e = nullptr) (ttfSurfaceCache (ttf_toggle_hinting env s))
           \<and> ttf_surface_cache_lookup env font str (ttf_toggle_hinting env s)
               = Miss (surface_home_index env font str)
           \<and> render_calls (snd (ttf_surface_cache_get_or_add env font str (ttf_toggle_hinting env s)))
               = render_calls (ttf_toggle_hinting env s) + 1)"
proof (intro impI conjI allI)
  assume sz: "tables_sized s"
  note W = toggle_hinting_width_untouched [OF sz, of env]
  show "ttfGetWidthCache (ttf_toggle_hinting env s) = ttfGetWidthCache s" by (rule W(1))
  show l1: "ttf_getwidth_cache_lookup env font str (ttf_toggle_hinting env s)
         = ttf_getwidth_cache_lookup env font str s"
    by (rule getwidth_lookup_cong [OF W(1,2)])
  show "ttf_getwidth_cache_lookup env font str
          (snd (ttf_surface_cache_get_or_add env font str (ttf_toggle_hinting env s)))
         = ttf_getwidth_cache_lookup env font str s"
    by (rule getwidth_lookup_cong) (simp_all add: surface_get_or_add_width_untouched W)
  {
    fix j assume "ttf_getwidth_cache_lookup env font str s = Hit j"
    with l1 have "ttf_getwidth_cache_lookup env font str (ttf_toggle_hinting env s) = Hit j"
      by simp
    then show "fst (ttf_getwidth_cache_get_or_add env font str (ttf_toggle_hinting env s))
             = w_width (ttfGetWidthCache s ! j)"
      by (simp add: getwidth_hit_effect W(1))
  }
  assume a: "UseTrueTypeFont env \<and> ttfSurfaceCacheCount s \<noteq> 0"
  note D = toggle_hinting_surfaces_disposed [OF sz, of env]
  from a D show e: "list_all (\<lambda>e. s_surface e = nullptr) (ttfSurfaceCache (ttf_toggle_hinting env s))"
    by simp
  from a D have len: "length (ttfSurfaceCache (ttf_toggle_hinting env s)) = TTF_SURFACE_CACHE_SIZE"
    by simp
  show m: "ttf_surface_cache_lookup env font str (ttf_toggle_hinting env s)
               = Miss (surface_home_index env font str)"
    by (rule surface_lookup_all_empty [OF len e])
  show "render_calls (snd (ttf_surface_cache_get_or_add env font str (ttf_toggle_hinting env s)))
               = render_calls (ttf_toggle_hinting env s) + 1"
    by (rule surface_miss_render_once [OF m])
qed

theorem toggle_hinting_invalidates_surfaces_only_witness:
  "tables_sized cached_state
   \<and> UseTrueTypeFont working_env \<and> ttfSurfaceCacheCount cached_state \<noteq> 0
   \<and> ttf_surface_cache_lookup working_env 0x1000 [72, 105] cached_state
       = Hit (surface_home_index working_env 0x1000 [72, 105])
   \<and> ttf_getwidth_cache_lookup working_env 0x1000 [72, 105] cached_state
       = Hit (getwidth_home_index working_env 0x1000 [72, 105])
   \<and> ttf_surface_cache_lookup working_env 0x1000 [72, 105]
        (ttf_toggle_hinting working_env cached_state)
       = Miss (surface_home_index working_env 0x1000 [72, 105])
   \<and> render_calls (snd (ttf_surface_cache_get_or_add working_env 0x1000 [72, 105]
        (ttf_toggle_hinting working_env cached_state)))
       = render_calls (ttf_toggle_hinting working_env cached_state) + 1
   \<and> ttf_getwidth_cache_lookup working_env 0x1000 [72, 105]
        (ttf_toggle_hinting working_env cached_state)
       = Hit (getwidth_home_index working_env 0x1000 [72, 105])
   \<and> ttf_getwidth_cache_lookup working_env 0x1000 [72, 105]
        (snd (ttf_surface_cache_get_or_add working_env 0x1000 [72, 105]
           (ttf_toggle_hinting working_env cached_state)))
       = Hit (getwidth_home_index working_env 0x1000 [72, 105])"
proof -
  have u: "UseTrueTypeFont working_env \<and> ttfSurfaceCacheCount cached_state \<noteq> 0"
    by (simp add: working_env_def cached_state_eq initial_state_def)
  have cs: "char_is_signed working_env = True" by (simp add: working_env_def)
  note L = cached_lookups [OF cs]
  note T = toggle_hinting_invalidates_surfaces_only [of cached_state working_env "0x1000" "[72, 105]",
      rule_format, OF cached_state_sized]
  from T u L cached_state_sized show ?thesis by simp
qed

text \<open>
  The claim as stated covers every state. With a sprite font in use the toggle returns at
  once, and the key (0x1000, "Hi"), cached in both tables, is still a hit in the surface
  cache after the toggle, without a render call.
\<close>

theorem toggle_hinting_sprite_font_counterexample:
  "\<not> UseTrueTypeFont sprite_env
   \<and> ttf_surface_cache_lookup sprite_env 0x1000 [72, 105] cached_state
       = Hit (surface_home_index sprite_env 0x1000 [72, 105])
   \<and> ttf_getwidth_cache_lookup sprite_env 0x1000 [72, 105] cached_state
       = Hit (getwidth_home_index sprite_env 0x1000 [72, 105])
   \<and> ttf_surface_cache_lookup sprite_env 0x1000 [72, 105]
        (ttf_toggle_hinting sprite_env cached_state)
       = Hit (surface_home_index sprite_env 0x1000 [72, 105])
   \<and> render_calls (snd (ttf_surface_cache_get_or_add sprite_env 0x1000 [72, 105]
        (ttf_toggle_hinting sprite_env cached_state)))
       = render_calls (ttf_toggle_hinting sprite_env cached_state)"
proof -
  have cs: "char_is_signed sprite_env = True" by (simp add: sprite_env_def working_env_def)
  have h: "surface_home_index sprite_env 0x1000 [72, 105] = surface_home_index working_env 0x1000 [72, 105]"
    "getwidth_home_index sprite_env 0x1000 [72, 105] = getwidth_home_index working_env 0x1000 [72, 105]"
    by (simp_all add: surface_home_index_def getwidth_home_index_def sprite_env_def)
  have n: "\<not> UseTrueTypeFont sprite_env" by (simp add: sprite_env_def)
  then have t: "ttf_toggle_hinting sprite_env cached_state = cached_state"
    by (simp add: ttf_toggle_hinting_def)
  note L = cached_lookups [OF cs]
  show ?thesis
    unfolding t h using n L surface_hit_render_none [OF L(1)] by simp
qed

section \<open>Equal keys in two slots\<close>

lemma run_ops_simps [simp]:
  "run_ops env [] s = s"
  "run_ops env (op # ops) s = run_ops env ops (run_op env op s)"
  "run_ops env (ops @ ops') s = run_ops env ops' (run_ops env ops s)"
  by (simp_all add: run_ops_def)




















































section \<open>What disposal of a whole table releases\<close>

lemma surface_dispose_loop_calls:
  "n \<le> length (ttfSurfaceCache s) \<Longrightarrow>
   calls (fold surface_dispose_all_body [0..<n] s) =
     calls s @ concat (map (\<lambda>e. if s_surface e \<noteq> nullptr
                                   then [Call_ttf_free_surface (s_surface e), Call_free_text (s_text e)]
                                   else [])
                           (take n (ttfSurfaceCache s)))"
proof (induction n)
  case 0
  then show ?case by simp
next
  case (Suc n)
  let ?t = "fold surface_dispose_all_body [0..<n] s"
  from Suc.prems have n: "n \<le> length (ttfSurfaceCache s)" "n < length (ttfSurfaceCache s)"
    by simp_all
  from surface_dispose_loop [OF n(1)] have same: "ttfSurfaceCache ?t ! n = ttfSurfaceCache s ! n"
    by simp
  have f: "fold surface_dispose_all_body [0..<Suc n] s = surface_dispose_all_body n ?t" by simp
  show ?case
    unfolding f
    by (simp add: surface_dispose_calls same Suc.IH [OF n(1)] take_Suc_conv_app_nth [OF n(2)])
qed

lemma getwidth_dispose_calls:
  "calls (ttf_getwidth_cache_dispose j s) =
     calls s @ (if w_text (ttfGetWidthCache s ! j) \<noteq> None
                then [Call_free_text (w_text (ttfGetWidthCache s ! j))]
                else [])"
  by (simp add: ttf_getwidth_cache_dispose_def Let_def)

lemma getwidth_dispose_loop_calls:
  "n \<le> length (ttfGetWidthCache s) \<Longrightarrow>
   calls (fold getwidth_dispose_all_body [0..<n] s) =
     calls s @ concat (map (\<lambda>e. if w_text e \<noteq> None then [Call_free_text (w_text e)] else [])
                           (take n (ttfGetWidthCache s)))"
proof (induction n)
  case 0
  then show ?case by simp
next
  case (Suc n)
  let ?t = "fold getwidth_dispose_all_body [0..<n] s"
  from Suc.prems have n: "n \<le> length (ttfGetWidthCache s)" "n < length (ttfGetWidthCache s)"
    by simp_all
  from getwidth_dispose_loop [OF n(1)] have same: "ttfGetWidthCache ?t ! n = ttfGetWidthCache s ! n"
    by simp
  have f: "fold getwidth_dispose_all_body [0..<Suc n] s = getwidth_dispose_all_body n ?t" by simp
  show ?case
    unfolding f
    by (simp add: getwidth_dispose_calls same Suc.IH [OF n(1)] take_Suc_conv_app_nth [OF n(2)])
qed

text \<open>
  What \<^verbatim>\<open>DisposeAll\<close> releases: for every occupied slot, in the order of the table, its
  surface and its text (surface table) or its text (width table), each once.
\<close>

lemma dispose_all_releases:
  assumes "tables_sized s"
  shows "calls (ttf_surface_cache_dispose_all s) =
     calls s @ concat (map (\<lambda>e. if s_surface e \<noteq> nullptr
                                   then [Call_ttf_free_surface (s_surface e), Call_free_text (s_text e)]
                                   else [])
                           (ttfSurfaceCache s))"
    and "calls (ttf_getwidth_cache_dispose_all s) =
     calls s @ concat (map (\<lambda>e. if w_text e \<noteq> None then [Call_free_text (w_text e)] else [])
                           (ttfGetWidthCache s))"
  using assms surface_dispose_loop_calls [of TTF_SURFACE_CACHE_SIZE s]
    getwidth_dispose_loop_calls [of TTF_GETWIDTH_CACHE_SIZE s]
  by (simp_all add: tables_sized_def ttf_surface_cache_dispose_all_def
        ttf_getwidth_cache_dispose_all_def)

section \<open>A run that ends with the surface counter at zero\<close>

lemma steady_home:
  "surface_home_index steady_env 0x1000 [] = 170"
  "surface_home_index steady_env 0x2000 [] = 170"
  using home_empty_text(1,2)
  by (simp_all add: surface_home_index_def steady_env_def working_env_def)

lemma steady_render: "fst (ttf_render steady_env font str s) = 0x5000"
  by (simp add: ttf_render_def steady_env_def)

lemma turn_step:
  assumes "turn_state n s"
  shows "turn_state (Suc n) (run_op steady_env (turn_key n) s)"
proof -
  let ?f = "if even n then 0x2000 else 0x1000 :: pointer"
  let ?c = "ttfSurfaceCache s"
  from assms have t: "gCurrentDrawCount s = 10" and len: "length ?c = 256"
    and cnt: "ttfSurfaceCacheCount s = of_nat n - 255"
    and rest: "\<forall>j<256. j \<noteq> 170 \<longrightarrow> s_surface (?c ! j) = nullptr"
    by (simp_all add: turn_state_def)
  have home: "surface_home_index steady_env ?f [] = 170"
    by (simp add: steady_home)
  have rule: "surface_slot_rule ?c (gCurrentDrawCount s) ?f [] 170 \<noteq> Rule_continue
      \<and> surface_slot_rule ?c (gCurrentDrawCount s) ?f [] 170 \<noteq> Rule_hit"
  proof (cases "n = 0")
    case True
    with assms show ?thesis by (simp add: turn_state_def surface_slot_rule_def)
  next
    case False
    with assms have e: "?c ! 170 = \<lparr>s_surface = 0x5000,
        s_font = (if even (n - 1) then 0x2000 else 0x1000), s_text = Some [], s_lastUseTick = 10\<rparr>"
      by (simp add: turn_state_def)
    from False have "even (n - 1) \<longleftrightarrow> \<not> even n" by (cases n) simp_all
    then show ?thesis by (simp add: surface_slot_rule_def e t nullptr_def)
  qed
  have lk: "ttf_surface_cache_lookup steady_env ?f [] s = Miss 170"
    using rule by (subst surface_lookup_home) (simp_all add: home)
  let ?s' = "snd (ttf_surface_cache_get_or_add steady_env ?f [] s)"
  have c': "ttfSurfaceCache ?s' = ?c[170 := \<lparr>s_surface = 0x5000, s_font = ?f, s_text = Some [],
                                               s_lastUseTick = 10\<rparr>]"
    by (simp add: surface_miss_effect [OF lk] Let_def steady_render nullptr_def
          surface_dispose_cache t)
  have n': "ttfSurfaceCacheCount ?s' = of_nat (Suc n) - 255"
    by (simp add: surface_miss_effect [OF lk] Let_def steady_render nullptr_def cnt)
  have t': "gCurrentDrawCount ?s' = 10"
    by (simp add: surface_get_or_add_width_untouched t)
  show ?thesis
    unfolding turn_key_def run_op.simps turn_state_def
    using rest len by (simp add: c' n' t')
qed

lemma turns:
  "turn_state 0 s \<Longrightarrow> turn_state n (run_ops steady_env (map turn_key [0..<n]) s)"
proof (induction n)
  case 0
  then show ?case by simp
next
  case (Suc n)
  then have "turn_state n (run_ops steady_env (map turn_key [0..<n]) s)" by simp
  from turn_step [OF this] show ?case by simp
qed

lemma zero_counter_start:
  "turn_state 0 (run_ops steady_env [GetOrAddSurface 0x1000 [], DisposeAllSurfaces] (initial_state 10))"
proof -
  let ?s1 = "snd (ttf_surface_cache_get_or_add steady_env 0x1000 [] (initial_state 10))"
  have lk: "ttf_surface_cache_lookup steady_env 0x1000 [] (initial_state 10) = Miss 170"
    using initial_surface_lookup [of steady_env "0x1000" "[]" 10] by (simp add: steady_home)
  have sz: "tables_sized ?s1"
    using initial_state_sized [of 10]
    by (simp add: tables_sized_def surface_miss_effect [OF lk] Let_def steady_render nullptr_def
          getwidth_lookup_cong surface_get_or_add_width_untouched)
  have c1: "ttfSurfaceCacheCount ?s1 = 1" and t1: "gCurrentDrawCount ?s1 = 10"
    unfolding surface_miss_effect [OF lk]
    by (simp_all add: Let_def steady_render nullptr_def initial_state_def)
  note D = surface_dispose_all_effect [OF sz]
  show ?thesis
    unfolding run_ops_simps run_op.simps turn_state_def
    using D(1,2,3,10) c1 t1
    by (simp add: TTF_SURFACE_CACHE_SIZE_def list_all_length)
qed

lemma zero_counter_run_state:
  "turn_state 255 (run_ops steady_env zero_counter_run (initial_state 10))"
  unfolding zero_counter_run_def run_ops_simps(3)
  by (rule turns [OF zero_counter_start])

text \<open>
  The state this run reaches has a live entry for (0x2000, "") and the counter 0, so a
  hinting toggle with the TrueType font in use leaves the surface cache as it is, and the
  lookup that follows is a hit with no render call.
\<close>

lemma zero_counter_toggle_keeps_surface:
  "UseTrueTypeFont steady_env
   \<and> ttfSurfaceCacheCount (run_ops steady_env zero_counter_run (initial_state 10)) = 0
   \<and> ttf_surface_cache_lookup steady_env 0x2000 []
        (run_ops steady_env zero_counter_run (initial_state 10)) = Hit 170
   \<and> ttf_surface_cache_lookup steady_env 0x2000 []
        (ttf_toggle_hinting steady_env (run_ops steady_env zero_counter_run (initial_state 10)))
       = Hit 170"
proof -
  let ?s = "run_ops steady_env zero_counter_run (initial_state 10)"
  from zero_counter_run_state have c: "ttfSurfaceCacheCount ?s = 0"
    and sz: "length (ttfSurfaceCache ?s) = 256"
    and e: "ttfSurfaceCache ?s ! 170 =
       \<lparr>s_surface = 0x5000, s_font = 0x2000, s_text = Some [], s_lastUseTick = 10\<rparr>"
    by (simp_all add: turn_state_def)
  have r: "surface_slot_rule (ttfSurfaceCache ?s) t 0x2000 [] 170 = Rule_hit" for t
    by (simp add: surface_slot_rule_def e nullptr_def)
  have l: "ttf_surface_cache_lookup steady_env 0x2000 [] ?s = Hit 170"
    by (subst surface_lookup_home) (simp_all add: steady_home r)
  have k: "ttfSurfaceCache (ttf_toggle_hinting steady_env ?s) = ttfSurfaceCache ?s"
    by (rule toggle_hinting_zero_counter [OF c])
  have l': "ttf_surface_cache_lookup steady_env 0x2000 [] (ttf_toggle_hinting steady_env ?s) = Hit 170"
    by (subst surface_lookup_home) (simp_all add: steady_home k r)
  have u: "UseTrueTypeFont steady_env" by (simp add: steady_env_def working_env_def)
  from u c l l' show ?thesis by simp
qed

end
